theory Spec2Isabelle
  imports Main "HOL-Library.Word"
begin

section \<open>JavaScript strings\<close>

text \<open>
  A JavaScript string is a sequence of UTF-16 code units: \<open>length\<close>, \<open>substring\<close>,
  \<open>slice\<close>, \<open>includes\<close>, \<open>startsWith\<close> and \<open>replace\<close> all count and compare code
  units. A string literal of the source is written \<open>S ''...''\<close>; the three icons of the
  source, which lie outside the Basic Multilingual Plane, are given by their surrogate
  pairs.
\<close>

type_synonym jsstring = "16 word list"

definition S :: "string \<Rightarrow> jsstring" where
  "S cs = map of_char cs"

definition iconMemo :: jsstring where
  \<comment> \<open>U+1F4DD, the icon of a selection\<close>
  "iconMemo = [0xD83D, 0xDCDD]"

definition iconPage :: jsstring where
  \<comment> \<open>U+1F4C4, the icon of a file\<close>
  "iconPage = [0xD83D, 0xDCC4]"

definition iconFolder :: jsstring where
  \<comment> \<open>U+1F4C1, the icon of a workspace\<close>
  "iconFolder = [0xD83D, 0xDCC1]"

definition startsWith :: "jsstring \<Rightarrow> jsstring \<Rightarrow> bool" where
  \<comment> \<open>\<open>s.startsWith(p)\<close>\<close>
  "startsWith s p = (take (length p) s = p)"

fun indexOf :: "jsstring \<Rightarrow> jsstring \<Rightarrow> nat option" where
  \<comment> \<open>\<open>s.indexOf(p)\<close>, with \<open>None\<close> for \<open>-1\<close>\<close>
  "indexOf [] p = (if p = [] then Some 0 else None)"
| "indexOf (c # cs) p =
     (if startsWith (c # cs) p then Some 0 else map_option Suc (indexOf cs p))"

definition includes_str :: "jsstring \<Rightarrow> jsstring \<Rightarrow> bool" where
  \<comment> \<open>\<open>s.includes(p)\<close>\<close>
  "includes_str s p = (indexOf s p \<noteq> None)"

fun getSubstitution :: "jsstring \<Rightarrow> jsstring \<Rightarrow> jsstring \<Rightarrow> jsstring \<Rightarrow> jsstring" where
  \<comment> \<open>The replacement text of \<open>String.prototype.replace\<close> for a string pattern:
      \<open>$$\<close> is a dollar sign, \<open>$&\<close> the matched text, \<open>$`\<close> the text before the match and
      \<open>$'\<close> the text after it; a string pattern has no capture groups, so every other
      dollar sign stands for itself.\<close>
  "getSubstitution matched preceding following [] = []"
| "getSubstitution matched preceding following [c] = [c]"
| "getSubstitution matched preceding following (c # d # r) =
     (if c = 0x24 \<and> d = 0x24 then 0x24 # getSubstitution matched preceding following r
      else if c = 0x24 \<and> d = 0x26 then matched @ getSubstitution matched preceding following r
      else if c = 0x24 \<and> d = 0x60 then preceding @ getSubstitution matched preceding following r
      else if c = 0x24 \<and> d = 0x27 then following @ getSubstitution matched preceding following r
      else c # getSubstitution matched preceding following (d # r))"

definition replace :: "jsstring \<Rightarrow> jsstring \<Rightarrow> jsstring \<Rightarrow> jsstring" where
  \<comment> \<open>\<open>s.replace(p, r)\<close> with a string pattern: only the first occurrence is replaced\<close>
  "replace s p r =
     (case indexOf s p of
        None \<Rightarrow> s
      | Some i \<Rightarrow>
          take i s @ getSubstitution p (take i s) (drop (i + length p) s) r
            @ drop (i + length p) s)"

definition isWhitespace :: "16 word \<Rightarrow> bool" where
  \<comment> \<open>The code units that \<open>trim\<close> strips and \<open>\s\<close> matches: white space and line
      terminators.\<close>
  "isWhitespace c =
     (c = 0x09 \<or> c = 0x0A \<or> c = 0x0B \<or> c = 0x0C \<or> c = 0x0D \<or> c = 0x20 \<or> c = 0xA0
      \<or> c = 0x1680 \<or> (0x2000 \<le> c \<and> c \<le> 0x200A) \<or> c = 0x2028 \<or> c = 0x2029
      \<or> c = 0x202F \<or> c = 0x205F \<or> c = 0x3000 \<or> c = 0xFEFF)"

definition trim :: "jsstring \<Rightarrow> jsstring" where
  \<comment> \<open>\<open>s.trim()\<close>\<close>
  "trim s = rev (dropWhile isWhitespace (rev (dropWhile isWhitespace s)))"

fun join :: "jsstring \<Rightarrow> jsstring list \<Rightarrow> jsstring" where
  \<comment> \<open>\<open>xs.join(sep)\<close>\<close>
  "join sep [] = []"
| "join sep [x] = x"
| "join sep (x # y # ys) = x @ sep @ join sep (y # ys)"

definition isPathSep :: "16 word \<Rightarrow> bool" where
  \<comment> \<open>the character class \<open>[\\/]\<close>\<close>
  "isPathSep c = (c = 0x2F \<or> c = 0x5C)"

definition lastSegment :: "jsstring \<Rightarrow> jsstring" where
  \<comment> \<open>\<open>s.split(/[\\/]/).pop()\<close>: the text after the last separator; \<open>split\<close> always
      yields at least one element, so \<open>pop\<close> is never \<open>undefined\<close> here.\<close>
  "lastSegment s = rev (takeWhile (\<lambda>c. \<not> isPathSep c) (rev s))"

definition orElse :: "jsstring \<Rightarrow> jsstring \<Rightarrow> jsstring" where
  \<comment> \<open>\<open>s || d\<close> on strings: the empty string is falsy\<close>
  "orElse s d = (if s = [] then d else s)"

fun digits :: "nat \<Rightarrow> jsstring" where
  \<comment> \<open>a non-negative integer below \<open>1e21\<close> inside a template literal: its decimal
      digits (line numbers and character offsets of the editor)\<close>
  "digits n = (if n < 10 then [of_nat (48 + n)] else digits (n div 10) @ [of_nat (48 + n mod 10)])"


definition tmpl :: "jsstring option \<Rightarrow> jsstring" where
  \<comment> \<open>an optional string property inside a template literal: \<open>undefined\<close> prints as
      its name\<close>
  "tmpl v = (case v of None \<Rightarrow> S ''undefined'' | Some s \<Rightarrow> s)"

definition orDefault :: "jsstring option \<Rightarrow> jsstring \<Rightarrow> jsstring" where
  \<comment> \<open>\<open>v || d\<close> on an optional string property: \<open>undefined\<close> and the empty string are
      falsy\<close>
  "orDefault v d = (case v of None \<Rightarrow> d | Some s \<Rightarrow> orElse s d)"

section \<open>Node's \<open>path.resolve\<close> (POSIX)\<close>

text \<open>
  \<open>require('path').resolve(root, filePath)\<close> is library code. It is modelled after Node's
  POSIX implementation: the arguments are taken from right to left until an absolute
  one is found (the working directory comes last), empty arguments are skipped, and the
  result is normalised segment by segment.
\<close>

fun splitSlash :: "jsstring \<Rightarrow> jsstring list" where
  "splitSlash [] = [[]]"
| "splitSlash (c # cs) =
     (if c = 0x2F then [] # splitSlash cs
      else (case splitSlash cs of [] \<Rightarrow> [[c]] | x # xs \<Rightarrow> (c # x) # xs))"

fun normalizeSegs :: "bool \<Rightarrow> jsstring list \<Rightarrow> jsstring list \<Rightarrow> jsstring list" where
  \<comment> \<open>\<open>normalizeString\<close>: empty segments and \<open>.\<close> are dropped, \<open>..\<close> removes the segment
      before it, and is kept only where going above the start is allowed\<close>
  "normalizeSegs allowAboveRoot [] res = res"
| "normalizeSegs allowAboveRoot (s # ss) res =
     (if s = [] \<or> s = S ''.'' then normalizeSegs allowAboveRoot ss res
      else if s = S ''..'' then
        (if res \<noteq> [] \<and> last res \<noteq> S ''..'' then normalizeSegs allowAboveRoot ss (butlast res)
         else if allowAboveRoot then normalizeSegs allowAboveRoot ss (res @ [S ''..''])
         else normalizeSegs allowAboveRoot ss res)
      else normalizeSegs allowAboveRoot ss (res @ [s]))"

fun resolveLoop :: "jsstring list \<Rightarrow> jsstring \<Rightarrow> jsstring \<times> bool" where
  \<comment> \<open>the arguments from the last to the first, then the working directory\<close>
  "resolveLoop [] resolvedPath = (resolvedPath, False)"
| "resolveLoop (p # ps) resolvedPath =
     (case p of
        [] \<Rightarrow> resolveLoop ps resolvedPath
      | c # _ \<Rightarrow>
          if c = 0x2F then (p @ S ''/'' @ resolvedPath, True)
          else resolveLoop ps (p @ S ''/'' @ resolvedPath))"

definition pathResolve :: "jsstring \<Rightarrow> jsstring list \<Rightarrow> jsstring" where
  "pathResolve cwd args =
     (case resolveLoop (rev args @ [cwd]) [] of
        (resolvedPath, resolvedAbsolute) \<Rightarrow>
          let norm = join (S ''/'') (normalizeSegs (\<not> resolvedAbsolute) (splitSlash resolvedPath) [])
          in if resolvedAbsolute then S ''/'' @ norm
             else if norm \<noteq> [] then norm else S ''.'')"

section \<open>Data model\<close>

datatype role = User | Ai | Err | Loading | System

record message =
  role :: role
  content :: jsstring

text \<open>
  A resolved context item. The template of the prompt reads \<open>icon\<close>, \<open>name\<close> and
  \<open>content\<close>; the other string properties an item carries (\<open>type\<close>, \<open>fullName\<close>,
  \<open>path\<close>) are kept as a property list.
\<close>

record contextItem =
  ci_icon :: jsstring
  ci_name :: jsstring
  ci_content :: jsstring
  ci_props :: "(jsstring \<times> jsstring) list"

text \<open>A context bubble sent with a \<open>userMessage\<close>; an absent property is \<open>None\<close>.\<close>

record contextBubble =
  b_type :: jsstring
  b_path :: "jsstring option"
  b_icon :: "jsstring option"
  b_name :: jsstring
  b_content :: jsstring

record refData =
  rd_icon :: "jsstring option"
  rd_fileName :: jsstring
  rd_startLine :: nat
  rd_endLine :: nat
  rd_content :: jsstring

record inlineRef =
  reference :: jsstring
  data :: refData

record userMessage =
  msgText :: jsstring
  contextItems :: "contextBubble list"
  inlineReferences :: "inlineRef list"

datatype js_error = JsError (errName: jsstring) (errMessage: jsstring)

definition messageOrString :: "js_error \<Rightarrow> jsstring" where
  \<comment> \<open>\<open>err?.message || String(err)\<close>: an error with an empty message prints as its name\<close>
  "messageOrString e = orElse (errMessage e) (errName e)"

datatype json =
    JNull | JBool bool | JNum int | JStr jsstring | JArr "json list"
  | JObj "(jsstring \<times> json) list"

datatype jsval = Undefined | V json

text \<open>The body of a provider request; the constant sampling fields are left out.\<close>

datatype requestBody =
    ChatBody jsstring "(jsstring \<times> jsstring) list"
  | ClaudeBody jsstring nat "(jsstring \<times> jsstring) list"
  | GeminiBody "(jsstring \<times> jsstring) list" nat

record request =
  url :: jsstring
  headers :: "(jsstring \<times> jsstring) list"
  body :: requestBody

text \<open>
  A transport response: \<open>ok\<close>, the raw body that \<open>res.text()\<close> yields, and what
  \<open>res.json()\<close> yields (the parsed envelope, or the error it throws).
\<close>

record response =
  ok :: bool
  bodyText :: jsstring
  bodyJson :: "js_error + json"

record editor =
  fileName :: jsstring
  languageId :: jsstring
  docText :: jsstring
  lineCount :: nat
  selStart :: "nat \<times> nat"
  selEnd :: "nat \<times> nat"
  selText :: jsstring
  docFolderName :: "jsstring option"

record folder =
  folderName :: jsstring
  fsPath :: jsstring

text \<open>
  The editor host, the configuration store, the shell and the transport, as the
  controller reads them during one handler.
\<close>

record env =
  activeTextEditor :: "editor option"
  workspaceFolders :: "folder list"
  asRelativePath :: "jsstring \<Rightarrow> jsstring"
  cwd :: jsstring
  execFind :: "nat \<Rightarrow> jsstring \<Rightarrow> jsstring option"
  readdirSync :: "jsstring \<Rightarrow> jsstring list option"
  accessSync :: "jsstring \<Rightarrow> jsstring \<Rightarrow> bool"
  fsReadError :: "jsstring \<Rightarrow> js_error"
  fsWriteError :: "jsstring \<Rightarrow> js_error option"
  activeProvider :: "jsstring option"
  gptApiKey :: "jsstring option"
  claudeApiKey :: "jsstring option"
  grokApiKey :: "jsstring option"
  geminiApiKey :: "jsstring option"
  fetch :: "request \<Rightarrow> js_error + response"

datatype event =
    HistorySet "message list"
  | PostView "message list"
  | PostPanel "message list"
  | FsRead jsstring
  | FsWrite jsstring jsstring
  | Fetch request

text \<open>
  The controller's state and the world it acts on: the message history, whether the
  side panel (\<open>_view\<close>) and the detachable panel (\<open>_panel\<close>) are set, the file system,
  and the trace of everything the controller did, in order.
\<close>

record state =
  messageHistory :: "message list"
  view :: bool
  panel :: bool
  files :: "jsstring \<rightharpoonup> jsstring"
  trace :: "event list"


section \<open>History Store and Surface Broadcaster\<close>

definition setHistory :: "state \<Rightarrow> message list \<Rightarrow> state" where
  \<comment> \<open>every assignment to \<open>_messageHistory\<close> is recorded in the trace\<close>
  "setHistory st h = st\<lparr>messageHistory := h, trace := trace st @ [HistorySet h]\<rparr>"

definition push :: "state \<Rightarrow> message \<Rightarrow> state" where
  \<comment> \<open>\<open>this._messageHistory.push(m)\<close>\<close>
  "push st m = setHistory st (messageHistory st @ [m])"

definition postMessageHistory :: "state \<Rightarrow> state" where
  "postMessageHistory st =
     (if view st then st\<lparr>trace := trace st @ [PostView (messageHistory st)]\<rparr> else st)"

definition postMessageHistoryToPanel :: "state \<Rightarrow> state" where
  "postMessageHistoryToPanel st =
     (if panel st then st\<lparr>trace := trace st @ [PostPanel (messageHistory st)]\<rparr> else st)"

section \<open>Editor Host reads\<close>

definition selectionIsEmpty :: "editor \<Rightarrow> bool" where
  "selectionIsEmpty e = (selStart e = selEnd e)"

definition getCurrentSelection :: "env \<Rightarrow> contextItem option" where
  "getCurrentSelection env =
     (case activeTextEditor env of
        None \<Rightarrow> None
      | Some e \<Rightarrow>
          if selectionIsEmpty e then None
          else
            let fname = orElse (lastSegment (fileName e)) (S ''unknown'');
                startLine = fst (selStart e) + 1;
                endLine = fst (selEnd e) + 1
            in Some \<lparr>ci_icon = iconMemo,
                     ci_name = fname @ S '':'' @ digits startLine @ S ''-'' @ digits endLine,
                     ci_content = selText e,
                     ci_props =
                       [(S ''type'', S ''selection''),
                        (S ''fullName'',
                         S ''Selection from '' @ fname @ S '' (lines '' @ digits startLine
                           @ S ''-'' @ digits endLine @ S '')'')]\<rparr>)"

definition getCurrentFile :: "env \<Rightarrow> contextItem option" where
  "getCurrentFile env =
     (case activeTextEditor env of
        None \<Rightarrow> None
      | Some e \<Rightarrow>
          Some \<lparr>ci_icon = iconPage,
                ci_name = orElse (lastSegment (fileName e)) (S ''unknown''),
                ci_content = docText e,
                ci_props =
                  [(S ''type'', S ''file''), (S ''fullName'', asRelativePath env (fileName e))]\<rparr>)"

definition workspaceStructure :: "env \<Rightarrow> nat \<Rightarrow> jsstring \<Rightarrow> jsstring option" where
  \<comment> \<open>the inner \<open>try\<close>: the shell's \<open>find ... | head -n\<close>, else the first \<open>n\<close> entries of
      the directory listing; \<open>None\<close> when the listing throws as well\<close>
  "workspaceStructure env n workspacePath =
     (case execFind env n workspacePath of
        Some out \<Rightarrow> Some out
      | None \<Rightarrow>
          (case readdirSync env workspacePath of
             None \<Rightarrow> None
           | Some entries \<Rightarrow> Some (join (S ''\<newline>'') (take n entries))))"

definition getWorkspaceInfo :: "env \<Rightarrow> contextItem option" where
  "getWorkspaceInfo env =
     (case workspaceFolders env of
        [] \<Rightarrow> None
      | wsf # _ \<Rightarrow>
          (case workspaceStructure env 10 (fsPath wsf) of
             None \<Rightarrow> None
           | Some struct \<Rightarrow>
               let existingFiles =
                     filter (accessSync env (fsPath wsf))
                       [S ''package.json'', S ''tsconfig.json'', S ''README.md''];
                   contextContent =
                     join (S ''\<newline>'')
                       [S ''**Workspace: '' @ folderName wsf @ S ''**'',
                        S ''Path: '' @ fsPath wsf,
                        S ''Project files: '' @ join (S '', '') existingFiles,
                        [],
                        S ''**Structure:**'',
                        trim struct]
               in Some \<lparr>ci_icon = iconFolder,
                        ci_name = folderName wsf,
                        ci_content = contextContent,
                        ci_props =
                          [(S ''type'', S ''workspace''),
                           (S ''fullName'', S ''Workspace: '' @ folderName wsf)]\<rparr>))"

definition getWorkspaceContext :: "env \<Rightarrow> jsstring option" where
  "getWorkspaceContext env =
     (case activeTextEditor env of
        None \<Rightarrow> None
      | Some e \<Rightarrow>
          let fname = lastSegment (fileName e);
              relativePath = asRelativePath env (fileName e);
              workspaceName = (case docFolderName e of None \<Rightarrow> S ''Unknown'' | Some n \<Rightarrow> n);
              selectionInfo =
                (if \<not> selectionIsEmpty e
                 then S ''\<newline>- Selected lines: '' @ digits (fst (selStart e) + 1) @ S ''-''
                        @ digits (fst (selEnd e) + 1)
                 else [])
          in Some (join (S ''\<newline>'')
                     [S ''**Current Context:**'',
                      S ''- Workspace: '' @ workspaceName,
                      S ''- Current file: `'' @ fname @ S ''`'',
                      S ''- File path: `'' @ relativePath @ S ''`'',
                      S ''- Language: '' @ languageId e @ selectionInfo,
                      []]))"

section \<open>File system\<close>

definition readFile :: "state \<Rightarrow> jsstring \<Rightarrow> jsstring option \<times> state" where
  \<comment> \<open>\<open>(await vscode.workspace.fs.readFile(uri)).toString()\<close>; \<open>None\<close> when it throws\<close>
  "readFile st p = (files st p, st\<lparr>trace := trace st @ [FsRead p]\<rparr>)"

definition writeFile :: "env \<Rightarrow> state \<Rightarrow> jsstring \<Rightarrow> jsstring \<Rightarrow> js_error option \<times> state" where
  \<comment> \<open>\<open>await vscode.workspace.fs.writeFile(uri, Buffer.from(c))\<close>; the error when it throws.
      The file holds the text as written: \<open>Buffer.from\<close> and \<open>toString\<close> are inverse on
      well-formed UTF-16, and a lone surrogate would be stored as U+FFFD.\<close>
  "writeFile env st p c =
     (case fsWriteError env p of
        Some e \<Rightarrow> (Some e, st\<lparr>trace := trace st @ [FsWrite p c]\<rparr>)
      | None \<Rightarrow> (None, st\<lparr>files := (files st)(p \<mapsto> c), trace := trace st @ [FsWrite p c]\<rparr>))"

definition handleAddFileToContext :: "env \<Rightarrow> state \<Rightarrow> jsstring \<Rightarrow> contextItem option \<times> state" where
  "handleAddFileToContext env st filePath =
     (case readFile st filePath of
        (None, st') \<Rightarrow> (None, st')
      | (Some fileContent, st') \<Rightarrow>
          (Some \<lparr>ci_icon = iconPage,
                 ci_name = orElse (lastSegment filePath) (S ''unknown''),
                 ci_content =
                   (if length fileContent > 2000
                    then take 2000 fileContent @ S ''\<newline>... (truncated)''
                    else fileContent),
                 ci_props = [(S ''path'', asRelativePath env filePath)]\<rparr>,
           st'))"

definition handleReadFile :: "env \<Rightarrow> state \<Rightarrow> jsstring \<Rightarrow> jsstring \<times> state" where
  "handleReadFile env st filePath =
     (case workspaceFolders env of
        [] \<Rightarrow> (S ''No workspace folder open.'', st)
      | wsf # _ \<Rightarrow>
          let root = fsPath wsf;
              absPath = pathResolve (cwd env) [root, filePath]
          in if \<not> startsWith absPath root
             then (S ''Error: Can only read files within the workspace.'', st)
             else
               (case readFile st absPath of
                  (None, st') \<Rightarrow>
                    (S ''Error reading file: '' @ messageOrString (fsReadError env absPath), st')
                | (Some fileContent, st') \<Rightarrow>
                    (if length fileContent > 4000
                     then S ''File is too large to display in chat (showing first 4000 chars):\<newline>''
                            @ take 4000 fileContent
                     else S ''```\<newline>'' @ fileContent @ S ''\<newline>```'',
                     st')))"

definition handleEditFile :: "env \<Rightarrow> state \<Rightarrow> jsstring \<Rightarrow> jsstring \<Rightarrow> jsstring \<times> state" where
  "handleEditFile env st filePath newContent =
     (case workspaceFolders env of
        [] \<Rightarrow> (S ''No workspace folder open.'', st)
      | wsf # _ \<Rightarrow>
          let root = fsPath wsf;
              absPath = pathResolve (cwd env) [root, filePath]
          in if \<not> startsWith absPath root
             then (S ''Error: Can only edit files within the workspace.'', st)
             else
               (case writeFile env st absPath newContent of
                  (Some e, st') \<Rightarrow> (S ''Error editing file: '' @ messageOrString e, st')
                | (None, st') \<Rightarrow> (S ''File '' @ filePath @ S '' updated successfully.'', st')))"

section \<open>Provider Dispatcher\<close>

subsection \<open>Reading the parsed envelope\<close>

text \<open>
  Property reads on a parsed JSON value, for the property names the strategies use
  (\<open>choices\<close>, \<open>message\<close>, \<open>content\<close>, \<open>text\<close>, \<open>candidates\<close>, \<open>parts\<close>, \<open>trim\<close>): none
  of them is a built-in property of an array, a number or a boolean, and only \<open>trim\<close> is
  one of a string. \<open>JSON.parse\<close> keeps the last of several equal keys.
\<close>

definition lookupProp :: "(jsstring \<times> json) list \<Rightarrow> jsstring \<Rightarrow> jsval" where
  "lookupProp kvs k = (case map_of (rev kvs) k of None \<Rightarrow> Undefined | Some j \<Rightarrow> V j)"

fun getProp :: "json \<Rightarrow> jsstring \<Rightarrow> jsval" where
  "getProp (JObj kvs) k = lookupProp kvs k"
| "getProp j k = Undefined"

fun index0 :: "json \<Rightarrow> jsval" where
  \<comment> \<open>\<open>x[0]\<close> on a value that is neither \<open>null\<close> nor \<open>undefined\<close>\<close>
  "index0 (JArr xs) = (case xs of [] \<Rightarrow> Undefined | x # _ \<Rightarrow> V x)"
| "index0 (JStr s) = (case s of [] \<Rightarrow> Undefined | c # _ \<Rightarrow> V (JStr [c]))"
| "index0 (JObj kvs) = lookupProp kvs (S ''0'')"
| "index0 j = Undefined"

definition dot :: "json \<Rightarrow> jsstring \<Rightarrow> js_error + jsval" where
  \<comment> \<open>\<open>data.k\<close>, unguarded: reading a property of \<open>null\<close> throws a TypeError\<close>
  "dot j k =
     (case j of
        JNull \<Rightarrow>
          Inl (JsError (S ''TypeError'')
                 (S ''Cannot read properties of null (reading '' @ [0x27] @ k @ [0x27] @ S '')''))
      | _ \<Rightarrow> Inr (getProp j k))"

definition optDot :: "jsval \<Rightarrow> jsstring \<Rightarrow> jsval" where
  \<comment> \<open>\<open>x?.k\<close>\<close>
  "optDot x k = (case x of Undefined \<Rightarrow> Undefined | V JNull \<Rightarrow> Undefined | V j \<Rightarrow> getProp j k)"

definition optIndex0 :: "jsval \<Rightarrow> jsval" where
  \<comment> \<open>\<open>x?.[0]\<close>\<close>
  "optIndex0 x = (case x of Undefined \<Rightarrow> Undefined | V JNull \<Rightarrow> Undefined | V j \<Rightarrow> index0 j)"

definition optTrim :: "jsval \<Rightarrow> js_error + jsval" where
  \<comment> \<open>\<open>x?.trim()\<close>: only a string has a callable \<open>trim\<close>; calling anything else throws
      a TypeError (its message is the engine's and is abbreviated here)\<close>
  "optTrim x =
     (case x of
        Undefined \<Rightarrow> Inr Undefined
      | V JNull \<Rightarrow> Inr Undefined
      | V (JStr s) \<Rightarrow> Inr (V (JStr (trim s)))
      | V _ \<Rightarrow> Inl (JsError (S ''TypeError'') (S ''trim is not a function'')))"

definition orNoResponse :: "jsval \<Rightarrow> jsstring" where
  \<comment> \<open>\<open>v || '[No response]'\<close> for \<open>v\<close> a string or \<open>undefined\<close>\<close>
  "orNoResponse v =
     (case v of V (JStr s) \<Rightarrow> orElse s (S ''[No response]'') | _ \<Rightarrow> S ''[No response]'')"

definition chatText :: "json \<Rightarrow> js_error + jsstring" where
  \<comment> \<open>\<open>data.choices?.[0]?.message?.content?.trim() || '[No response]'\<close>\<close>
  "chatText d =
     (case dot d (S ''choices'') of
        Inl e \<Rightarrow> Inl e
      | Inr choices \<Rightarrow>
          (case optTrim (optDot (optDot (optIndex0 choices) (S ''message'')) (S ''content'')) of
             Inl e \<Rightarrow> Inl e
           | Inr v \<Rightarrow> Inr (orNoResponse v)))"

definition claudeText :: "json \<Rightarrow> js_error + jsstring" where
  \<comment> \<open>\<open>data.content?.[0]?.text?.trim() || '[No response]'\<close>\<close>
  "claudeText d =
     (case dot d (S ''content'') of
        Inl e \<Rightarrow> Inl e
      | Inr c \<Rightarrow>
          (case optTrim (optDot (optIndex0 c) (S ''text'')) of
             Inl e \<Rightarrow> Inl e
           | Inr v \<Rightarrow> Inr (orNoResponse v)))"

definition geminiText :: "json \<Rightarrow> js_error + jsstring" where
  \<comment> \<open>\<open>data.candidates?.[0]?.content?.parts?.[0]?.text?.trim() || '[No response]'\<close>\<close>
  "geminiText d =
     (case dot d (S ''candidates'') of
        Inl e \<Rightarrow> Inl e
      | Inr c \<Rightarrow>
          (case optTrim
                  (optDot (optIndex0 (optDot (optDot (optIndex0 c) (S ''content'')) (S ''parts'')))
                     (S ''text'')) of
             Inl e \<Rightarrow> Inl e
           | Inr v \<Rightarrow> Inr (orNoResponse v)))"

subsection \<open>The four strategies\<close>

definition configGet :: "jsstring option \<Rightarrow> jsstring \<Rightarrow> jsstring" where
  \<comment> \<open>\<open>config.get<string>(key, dflt)\<close>\<close>
  "configGet v dflt = (case v of None \<Rightarrow> dflt | Some x \<Rightarrow> x)"

definition historyMessages :: "jsstring \<Rightarrow> message list \<Rightarrow> (jsstring \<times> jsstring) list" where
  \<comment> \<open>the prior \<open>user\<close> and \<open>ai\<close> turns in the provider's role vocabulary\<close>
  "historyMessages assistantRole h =
     map (\<lambda>m. (if role m = User then S ''user'' else assistantRole, content m))
       (filter (\<lambda>m. role m = User \<or> role m = Ai) h)"

definition send :: "env \<Rightarrow> state \<Rightarrow> request \<Rightarrow> (js_error + response) \<times> state" where
  \<comment> \<open>\<open>await fetch(url, ...)\<close>\<close>
  "send env st req = (fetch env req, st\<lparr>trace := trace st @ [Fetch req]\<rparr>)"

definition settle ::
  "jsstring \<Rightarrow> (json \<Rightarrow> js_error + jsstring) \<Rightarrow> (js_error + response) \<Rightarrow> js_error + jsstring" where
  \<comment> \<open>what every strategy does with the transport result: a rejected \<open>fetch\<close> and a
      failing \<open>res.json()\<close> propagate, a non-success result throws the provider's error
      with the raw body, a success is parsed down to text\<close>
  "settle errorPrefix parse r =
     (case r of
        Inl e \<Rightarrow> Inl e
      | Inr res \<Rightarrow>
          if \<not> ok res then Inl (JsError (S ''Error'') (errorPrefix @ bodyText res))
          else (case bodyJson res of Inl e \<Rightarrow> Inl e | Inr d \<Rightarrow> parse d))"

definition callOpenAIGPT :: "env \<Rightarrow> state \<Rightarrow> jsstring \<Rightarrow> (js_error + jsstring) \<times> state" where
  "callOpenAIGPT env st userText =
     (let apiKey = configGet (gptApiKey env) []
      in if apiKey = [] then
           (Inl (JsError (S ''Error'')
                   (S ''No OpenAI API key set. Please add it in the extension settings.'')), st)
         else
           (case send env st
                   \<lparr>url = S ''https://api.openai.com/v1/chat/completions'',
                    headers =
                      [(S ''Content-Type'', S ''application/json''),
                       (S ''Authorization'', S ''Bearer '' @ apiKey)],
                    body =
                      ChatBody (S ''gpt-3.5-turbo'')
                        (historyMessages (S ''assistant'') (messageHistory st)
                           @ [(S ''user'', userText)])\<rparr> of
              (r, st') \<Rightarrow> (settle (S ''OpenAI API error: '') chatText r, st')))"

definition callClaudeStub :: "env \<Rightarrow> state \<Rightarrow> jsstring \<Rightarrow> (js_error + jsstring) \<times> state" where
  "callClaudeStub env st userText =
     (let apiKey = configGet (claudeApiKey env) []
      in if apiKey = [] then
           (Inl (JsError (S ''Error'')
                   (S ''No Claude API key set. Please add it in the extension settings.'')), st)
         else
           (case send env st
                   \<lparr>url = S ''https://api.anthropic.com/v1/messages'',
                    headers =
                      [(S ''Content-Type'', S ''application/json''),
                       (S ''x-api-key'', apiKey),
                       (S ''anthropic-version'', S ''2023-06-01'')],
                    body = ClaudeBody (S ''claude-3-opus-20240229'') 1024 [(S ''user'', userText)]\<rparr> of
              (r, st') \<Rightarrow> (settle (S ''Claude API error: '') claudeText r, st')))"

definition callGrokStub :: "env \<Rightarrow> state \<Rightarrow> jsstring \<Rightarrow> (js_error + jsstring) \<times> state" where
  "callGrokStub env st userText =
     (let apiKey = configGet (grokApiKey env) []
      in if apiKey = [] then
           (Inl (JsError (S ''Error'')
                   (S ''No Grok API key set. Please add it in the extension settings.'')), st)
         else
           (case send env st
                   \<lparr>url = S ''https://api.grok.x.ai/v1/chat/completions'',
                    headers =
                      [(S ''Content-Type'', S ''application/json''),
                       (S ''Authorization'', S ''Bearer '' @ apiKey)],
                    body =
                      ChatBody (S ''grok-1'')
                        (historyMessages (S ''assistant'') (messageHistory st)
                           @ [(S ''user'', userText)])\<rparr> of
              (r, st') \<Rightarrow> (settle (S ''Grok API error: '') chatText r, st')))"

definition callGeminiStub :: "env \<Rightarrow> state \<Rightarrow> jsstring \<Rightarrow> (js_error + jsstring) \<times> state" where
  "callGeminiStub env st userText =
     (let apiKey = configGet (geminiApiKey env) []
      in if apiKey = [] then
           (Inl (JsError (S ''Error'')
                   (S ''No Gemini API key set. Please add it in the extension settings.'')), st)
         else
           (case send env st
                   \<lparr>url =
                      S ''https://generativelanguage.googleapis.com/v1beta/models/gemini-pro:generateContent?key=''
                        @ apiKey,
                    headers = [(S ''Content-Type'', S ''application/json'')],
                    body =
                      GeminiBody
                        (historyMessages (S ''model'') (messageHistory st)
                           @ [(S ''user'', userText)])
                        1024\<rparr> of
              (r, st') \<Rightarrow> (settle (S ''Gemini API error: '') geminiText r, st')))"

subsection \<open>The dispatcher\<close>

definition editMatch :: "jsstring \<Rightarrow> (jsstring \<times> jsstring) option" where
  \<comment> \<open>\<open>userText.match(/^\/edit\s+([^\s]+)\s+([\s\S]*)$/)\<close>: the two groups, or \<open>None\<close>.
      Each quantifier is greedy and a shorter match of any of them cannot succeed, so the
      groups are the first run of non-space characters and all that follows the
      white space after it.\<close>
  "editMatch userText =
     (if \<not> startsWith userText (S ''/edit'') then None
      else
        let r0 = drop 5 userText;
            r1 = dropWhile isWhitespace r0;
            filePath = takeWhile (\<lambda>c. \<not> isWhitespace c) r1;
            r2 = dropWhile (\<lambda>c. \<not> isWhitespace c) r1
        in if r1 = r0 \<or> filePath = [] \<or> r2 = [] then None
           else Some (filePath, dropWhile isWhitespace r2))"

definition callAI :: "env \<Rightarrow> state \<Rightarrow> jsstring \<Rightarrow> bool \<Rightarrow> (js_error + jsstring) \<times> state" where
  "callAI env st userText includeContext =
     (if startsWith userText (S ''/read '') then
        (case handleReadFile env st (trim (replace userText (S ''/read '') [])) of
           (r, st') \<Rightarrow> (Inr r, st'))
      else if startsWith userText (S ''/edit '') then
        (case editMatch userText of
           None \<Rightarrow> (Inr (S ''Usage: /edit <file> <new content>''), st)
         | Some (filePath, newContent) \<Rightarrow>
             (case handleEditFile env st filePath newContent of (r, st') \<Rightarrow> (Inr r, st')))
      else
        let enhancedUserText =
              (if includeContext then
                 (case getWorkspaceContext env of
                    Some contextInfo \<Rightarrow>
                      contextInfo @ S ''\<newline>\<newline>**User Question:**\<newline>'' @ userText
                  | None \<Rightarrow> userText)
               else userText);
            provider = configGet (activeProvider env) (S ''gpt'')
        in if provider = S ''gpt'' then callOpenAIGPT env st enhancedUserText
           else if provider = S ''claude'' then callClaudeStub env st enhancedUserText
           else if provider = S ''grok'' then callGrokStub env st enhancedUserText
           else if provider = S ''gemini'' then callGeminiStub env st userText
           else (Inl (JsError (S ''Error'') (S ''Unknown provider: '' @ provider)), st))"

section \<open>Reference Resolver and the user turn\<close>

text \<open>
  The repository holds two copies of the controller. They differ in one branch of
  \<open>_handleUserMessage\<close>: \<open>unnamed/part_000\<close> replaces an unresolvable \<open>[selection]\<close>
  marker by a notice, \<open>src/extension.ts\<close> leaves it alone.
\<close>

datatype variant = SrcExtension | Part000

definition noSelectionFound :: jsstring where
  \<open>noSelectionFound =
     S ''**No selection found** - Please select some text first, or use the "Add Selection to Chat" command from the right-click menu.''\<close>

definition label :: "contextItem \<Rightarrow> jsstring" where
  \<comment> \<open>\<open>`**${item.icon} ${item.name}**`\<close>\<close>
  "label item = S ''**'' @ ci_icon item @ S '' '' @ ci_name item @ S ''**''"

definition resolveSelectionMarker ::
  "variant \<Rightarrow> env \<Rightarrow> jsstring \<times> contextItem list \<Rightarrow> jsstring \<times> contextItem list" where
  "resolveSelectionMarker v env acc =
     (case acc of
        (fullMessage, resolvedReferences) \<Rightarrow>
          if includes_str fullMessage (S ''[selection]'') then
            (case getCurrentSelection env of
               Some selectionContext \<Rightarrow>
                 (replace fullMessage (S ''[selection]'') (label selectionContext),
                  resolvedReferences @ [selectionContext])
             | None \<Rightarrow>
                 (case v of
                    SrcExtension \<Rightarrow> acc
                  | Part000 \<Rightarrow>
                      (replace fullMessage (S ''[selection]'') noSelectionFound,
                       resolvedReferences)))
          else acc)"

definition resolveFileMarker ::
  "env \<Rightarrow> jsstring \<times> contextItem list \<Rightarrow> jsstring \<times> contextItem list" where
  "resolveFileMarker env acc =
     (case acc of
        (fullMessage, resolvedReferences) \<Rightarrow>
          if includes_str fullMessage (S ''[file]'') then
            (case getCurrentFile env of
               Some fileContext \<Rightarrow>
                 (replace fullMessage (S ''[file]'') (label fileContext),
                  resolvedReferences @ [fileContext])
             | None \<Rightarrow> acc)
          else acc)"

definition resolveWorkspaceMarker ::
  "env \<Rightarrow> jsstring \<times> contextItem list \<Rightarrow> jsstring \<times> contextItem list" where
  "resolveWorkspaceMarker env acc =
     (case acc of
        (fullMessage, resolvedReferences) \<Rightarrow>
          if includes_str fullMessage (S ''[workspace]'') then
            (case getWorkspaceInfo env of
               Some workspaceContext \<Rightarrow>
                 (replace fullMessage (S ''[workspace]'') (label workspaceContext),
                  resolvedReferences @ [workspaceContext])
             | None \<Rightarrow> acc)
          else acc)"

fun resolveBubbles ::
  "env \<Rightarrow> contextBubble list \<Rightarrow> contextItem list \<times> state \<Rightarrow> contextItem list \<times> state" where
  \<comment> \<open>the loop over \<open>message.contextItems\<close>\<close>
  "resolveBubbles env [] acc = acc"
| "resolveBubbles env (item # items) (resolvedReferences, st) =
     (if b_type item = S ''file'' \<and> orDefault (b_path item) [] \<noteq> [] then
        (case handleAddFileToContext env st (orDefault (b_path item) []) of
           (Some fileContext, st') \<Rightarrow>
             resolveBubbles env items (resolvedReferences @ [fileContext], st')
         | (None, st') \<Rightarrow> resolveBubbles env items (resolvedReferences, st'))
      else if b_type item = S ''selection'' then
        resolveBubbles env items
          (resolvedReferences
             @ [\<lparr>ci_icon = orDefault (b_icon item) iconMemo,
                 ci_name = b_name item,
                 ci_content = b_content item,
                 ci_props = []\<rparr>],
           st)
      else resolveBubbles env items (resolvedReferences, st))"

definition refName :: "refData \<Rightarrow> jsstring" where
  \<comment> \<open>\<open>`${refData.fileName}:${refData.startLine}-${refData.endLine}`\<close>\<close>
  "refName d = rd_fileName d @ S '':'' @ digits (rd_startLine d) @ S ''-'' @ digits (rd_endLine d)"

fun resolveInlineRefs ::
  "inlineRef list \<Rightarrow> jsstring \<times> contextItem list \<Rightarrow> jsstring \<times> contextItem list" where
  \<comment> \<open>the loop over \<open>message.inlineReferences\<close>\<close>
  "resolveInlineRefs [] acc = acc"
| "resolveInlineRefs (r # rs) (fullMessage, resolvedReferences) =
     resolveInlineRefs rs
       (replace fullMessage (reference r)
          (S ''**'' @ tmpl (rd_icon (data r)) @ S '' '' @ refName (data r) @ S ''**''),
        resolvedReferences
          @ [\<lparr>ci_icon = orDefault (rd_icon (data r)) iconMemo,
              ci_name = refName (data r),
              ci_content = rd_content (data r),
              ci_props = []\<rparr>])"

definition contextBlock :: "contextItem \<Rightarrow> jsstring" where
  \<comment> \<open>\<open>`**${item.icon} ${item.name}:**\n\`\`\`\n${item.content}\n\`\`\``\<close>\<close>
  "contextBlock item =
     S ''**'' @ ci_icon item @ S '' '' @ ci_name item @ S '':**\<newline>```\<newline>'' @ ci_content item
       @ S ''\<newline>```''"

definition finalMessage :: "contextItem list \<Rightarrow> jsstring \<Rightarrow> jsstring \<Rightarrow> jsstring" where
  \<comment> \<open>"Build final message with all context"\<close>
  "finalMessage resolvedReferences fullMessage original =
     (if length resolvedReferences > 0 then
        S ''**Context:**\<newline>'' @ join (S ''\<newline>\<newline>'') (map contextBlock resolvedReferences)
          @ S ''\<newline>\<newline>**Question:**\<newline>'' @ original
      else fullMessage)"

definition resolveReferences ::
  "variant \<Rightarrow> env \<Rightarrow> state \<Rightarrow> userMessage \<Rightarrow> (jsstring \<times> contextItem list) \<times> state" where
  \<comment> \<open>the first part of \<open>_handleUserMessage\<close>: the display copy after the marker and
      reference substitutions, the resolved items, and the state after the file reads\<close>
  "resolveReferences v env st message =
     (case resolveWorkspaceMarker env
             (resolveFileMarker env (resolveSelectionMarker v env (msgText message, []))) of
        (fullMessage, refs) \<Rightarrow>
          (case resolveBubbles env (contextItems message) (refs, st) of
             (refs', st') \<Rightarrow> (resolveInlineRefs (inlineReferences message) (fullMessage, refs'), st')))"

definition broadcast :: "state \<Rightarrow> state" where
  \<comment> \<open>\<open>this._postMessageHistory(); this._postMessageHistoryToPanel();\<close>\<close>
  "broadcast st = postMessageHistoryToPanel (postMessageHistory st)"

definition removeLoading :: "state \<Rightarrow> state" where
  \<comment> \<open>\<open>this._messageHistory = this._messageHistory.filter((msg) => msg.role !== 'loading')\<close>\<close>
  "removeLoading st = setHistory st (filter (\<lambda>msg. role msg \<noteq> Loading) (messageHistory st))"

text \<open>
  \<open>_handleUserMessage\<close> suspends once after its first push: at
  \<open>await this._callAI(fullMessage, false)\<close>. It is given in the two segments this
  leaves, \<open>beginTurn\<close> up to the call and \<open>settleTurn\<close> from the call's result on.
  The awaits of the resolution before the first push write nothing to the history.
\<close>

definition beginTurn :: "variant \<Rightarrow> env \<Rightarrow> state \<Rightarrow> userMessage \<Rightarrow> jsstring \<times> state" where
  \<comment> \<open>up to the call: the prompt, and the state with the \<open>user\<close> and the \<open>loading\<close> entry
      pushed and broadcast\<close>
  "beginTurn v env st message =
     (case resolveReferences v env st message of
        ((substituted, resolvedReferences), st1) \<Rightarrow>
          let fullMessage = finalMessage resolvedReferences substituted (msgText message);
              st2 = broadcast (push st1 \<lparr>role = User, content = fullMessage\<rparr>);
              st3 = broadcast (push st2 \<lparr>role = Loading, content = S ''Thinking...''\<rparr>)
          in (fullMessage, st3))"

definition settleTurn :: "state \<Rightarrow> js_error + jsstring \<Rightarrow> state" where
  \<comment> \<open>from the call's result on: the two branches of the \<open>try\<close>\<close>
  "settleTurn st r =
     (case r of
        Inr aiResponse \<Rightarrow> broadcast (push (removeLoading st) \<lparr>role = Ai, content = aiResponse\<rparr>)
      | Inl err \<Rightarrow>
          broadcast
            (push (removeLoading st) \<lparr>role = Err, content = S ''Error: '' @ errMessage err\<rparr>))"

definition handleUserMessage :: "variant \<Rightarrow> env \<Rightarrow> state \<Rightarrow> userMessage \<Rightarrow> state" where
  \<comment> \<open>a turn during which nothing else is handled: the call settles and the turn resumes
      before the next message arrives\<close>
  "handleUserMessage v env st message =
     (case beginTurn v env st message of
        (fullMessage, st3) \<Rightarrow>
          (case callAI env st3 fullMessage False of (r, st4) \<Rightarrow> settleTurn st4 r))"

section \<open>Commands that do not go through a provider\<close>

definition handleSendCurrentFile :: "env \<Rightarrow> state \<Rightarrow> state" where
  "handleSendCurrentFile env st =
     (case activeTextEditor env of
        None \<Rightarrow>
          postMessageHistory (push st \<lparr>role = System, content = S ''No file is currently open.''\<rparr>)
      | Some e \<Rightarrow>
          let workspaceName = (case docFolderName e of None \<Rightarrow> S ''Unknown'' | Some n \<Rightarrow> n);
              contextInfo =
                join (S ''\<newline>'')
                  [S ''**File Context:**'',
                   S ''- File: `'' @ lastSegment (fileName e) @ S ''`'',
                   S ''- Path: `'' @ asRelativePath env (fileName e) @ S ''`'',
                   S ''- Language: '' @ languageId e,
                   S ''- Lines: '' @ digits (lineCount e),
                   S ''- Workspace: '' @ workspaceName,
                   [],
                   S ''**File Content:**'']
          in postMessageHistory
               (push st
                  \<lparr>role = User,
                   content =
                     contextInfo @ S ''\<newline>\<newline>```'' @ languageId e @ S ''\<newline>'' @ docText e
                       @ S ''```''\<rparr>))"

definition handleSendSelection :: "env \<Rightarrow> state \<Rightarrow> state" where
  "handleSendSelection env st =
     (case activeTextEditor env of
        None \<Rightarrow>
          postMessageHistory (push st \<lparr>role = System, content = S ''No file is currently open.''\<rparr>)
      | Some e \<Rightarrow>
          if selText e = [] then
            postMessageHistory (push st \<lparr>role = System, content = S ''No text is selected.''\<rparr>)
          else
            let workspaceName = (case docFolderName e of None \<Rightarrow> S ''Unknown'' | Some n \<Rightarrow> n);
                contextInfo =
                  join (S ''\<newline>'')
                    [S ''**Selection Context:**'',
                     S ''- File: `'' @ lastSegment (fileName e) @ S ''`'',
                     S ''- Path: `'' @ asRelativePath env (fileName e) @ S ''`'',
                     S ''- Language: '' @ languageId e,
                     S ''- Lines: '' @ digits (fst (selStart e) + 1) @ S ''-''
                       @ digits (fst (selEnd e) + 1),
                     S ''- Characters: '' @ digits (snd (selStart e)) @ S ''-''
                       @ digits (snd (selEnd e)),
                     S ''- Workspace: '' @ workspaceName,
                     [],
                     S ''**Selected Content:**'']
            in postMessageHistory
                 (push st
                    \<lparr>role = User,
                     content =
                       contextInfo @ S ''\<newline>\<newline>```'' @ languageId e @ S ''\<newline>'' @ selText e
                         @ S ''```''\<rparr>))"

datatype choice = ShowDiff | Apply | Cancel

definition showDiff :: "env \<Rightarrow> state \<Rightarrow> jsstring \<Rightarrow> state" where
  \<comment> \<open>reads the current content for the comparison; the two documents it opens are
      untitled buffers of the editor, outside this state\<close>
  "showDiff env st filePath =
     (case workspaceFolders env of
        [] \<Rightarrow> st
      | wsf # _ \<Rightarrow>
          let root = fsPath wsf;
              absPath = pathResolve (cwd env) [root, filePath]
          in if \<not> startsWith absPath root then st else snd (readFile st absPath))"

definition showPreviewAndApply :: "env \<Rightarrow> state \<Rightarrow> choice \<Rightarrow> jsstring \<Rightarrow> jsstring \<Rightarrow> state" where
  \<comment> \<open>the user's answer to the prompt is a parameter\<close>
  "showPreviewAndApply env st choice filePath newContent =
     (case choice of
        ShowDiff \<Rightarrow> showDiff env st filePath
      | Apply \<Rightarrow>
          (case handleEditFile env st filePath newContent of
             (result, st') \<Rightarrow> postMessageHistory (push st' \<lparr>role = System, content = result\<rparr>))
      | Cancel \<Rightarrow> st)"

section \<open>Turns that overlap\<close>

text \<open>
  The listener of a surface is an async function that nothing awaits, and nothing
  serialises the turns: while the provider call of one turn is outstanding, the next
  message is handled. The history is written in synchronous segments only: the two pushes
  of a turn, followed in the same segment by the start of the provider call (a strategy
  reads the history before its first await); the removal and the push once the call has
  settled; the single push of each other handler. A controller is the state together with
  the results of the calls that are outstanding, and a call delivers its result at any
  later moment, in any order. The file accesses of \<open>/read\<close> and \<open>/edit\<close>, which happen
  while the call is outstanding, are placed at its start; they do not touch the history.
  A call that settles without any input or output (a missing credential, a usage notice)
  resumes its turn before the next message is handled; the controller below lets a
  message arrive there too, so it has every interleaving of the source and some more.
\<close>

type_synonym controller = "state \<times> (js_error + jsstring) list"

datatype occurrence =
    UserMessage env userMessage
  | CallSettles nat
  | SendCurrentFile env
  | SendSelection env
  | PreviewApply env jsstring jsstring

fun occur :: "variant \<Rightarrow> controller \<Rightarrow> occurrence \<Rightarrow> controller" where
  \<comment> \<open>a \<open>userMessage\<close> arrives and its turn runs up to the await\<close>
  "occur v (st, outstanding) (UserMessage env message) =
     (case beginTurn v env st message of
        (fullMessage, st3) \<Rightarrow>
          (case callAI env st3 fullMessage False of (r, st4) \<Rightarrow> (st4, outstanding @ [r])))"
  \<comment> \<open>the outstanding call of that index settles and its turn resumes\<close>
| "occur v (st, outstanding) (CallSettles i) =
     (if i < length outstanding
      then (settleTurn st (outstanding ! i), take i outstanding @ drop (Suc i) outstanding)
      else (st, outstanding))"
| "occur v (st, outstanding) (SendCurrentFile env) = (handleSendCurrentFile env st, outstanding)"
| "occur v (st, outstanding) (SendSelection env) = (handleSendSelection env st, outstanding)"
  \<comment> \<open>the user answers the preview prompt with \<open>Apply\<close>\<close>
| "occur v (st, outstanding) (PreviewApply env filePath newContent) =
     (showPreviewAndApply env st Apply filePath newContent, outstanding)"

fun run :: "variant \<Rightarrow> controller \<Rightarrow> occurrence list \<Rightarrow> controller" where
  "run v c [] = c"
| "run v c (x # xs) = run v (occur v c x) xs"

section \<open>Observations on states and traces\<close>

text \<open>
  The definitions of this section read a state or a trace; they are what the theorems
  below are stated with and are no part of the controller.
\<close>

fun historyStates :: "event list \<Rightarrow> message list list" where
  \<comment> \<open>the successive values of the history\<close>
  "historyStates [] = []"
| "historyStates (HistorySet h # es) = h # historyStates es"
| "historyStates (e # es) = historyStates es"

fun fetches :: "event list \<Rightarrow> request list" where
  \<comment> \<open>the transport requests made\<close>
  "fetches [] = []"
| "fetches (Fetch r # es) = r # fetches es"
| "fetches (e # es) = fetches es"

fun panelPosts :: "event list \<Rightarrow> message list list" where
  \<comment> \<open>the history payloads posted to the detachable panel\<close>
  "panelPosts [] = []"
| "panelPosts (PostPanel h # es) = h # panelPosts es"
| "panelPosts (e # es) = panelPosts es"

fun noAdjacentLoading :: "message list \<Rightarrow> bool" where
  "noAdjacentLoading [] = True"
| "noAdjacentLoading [x] = True"
| "noAdjacentLoading (x # y # ys) =
     (\<not> (role x = Loading \<and> role y = Loading) \<and> noAdjacentLoading (y # ys))"

definition loadingCount :: "message list \<Rightarrow> nat" where
  "loadingCount h = length (filter (\<lambda>x. role x = Loading) h)"

definition steady :: "controller \<Rightarrow> bool" where
  \<comment> \<open>what holds of a controller at every moment: neither the history nor any value it
      has taken has two adjacent \<open>loading\<close> entries, and it has no more \<open>loading\<close> entries
      than calls outstanding\<close>
  "steady c =
     (noAdjacentLoading (messageHistory (fst c))
      \<and> list_all noAdjacentLoading (historyStates (trace (fst c)))
      \<and> loadingCount (messageHistory (fst c)) \<le> length (snd c))"

definition quiet :: "state \<Rightarrow> state \<Rightarrow> bool" where
  \<comment> \<open>the second state has the history, the surfaces and the history states of the first\<close>
  "quiet st st' =
     (messageHistory st' = messageHistory st \<and> view st' = view st \<and> panel st' = panel st
      \<and> historyStates (trace st') = historyStates (trace st))"

definition loadingEntry :: message where
  "loadingEntry = \<lparr>role = Loading, content = S ''Thinking...''\<rparr>"

definition userEntry :: "variant \<Rightarrow> env \<Rightarrow> state \<Rightarrow> userMessage \<Rightarrow> message" where
  \<comment> \<open>the \<open>user\<close> entry a turn appends\<close>
  "userEntry v env st message =
     (case resolveReferences v env st message of
        ((substituted, resolvedReferences), st1) \<Rightarrow>
          \<lparr>role = User, content = finalMessage resolvedReferences substituted (msgText message)\<rparr>)"

definition awaiting :: "variant \<Rightarrow> env \<Rightarrow> state \<Rightarrow> userMessage \<Rightarrow> state" where
  \<comment> \<open>the state of a turn at the moment the provider call starts\<close>
  "awaiting v env st message =
     broadcast
       (push (broadcast (push (snd (resolveReferences v env st message)) (userEntry v env st message)))
          loadingEntry)"

definition terminalEntry :: "js_error + jsstring \<Rightarrow> message" where
  \<comment> \<open>the entry that ends a turn, from the outcome of the provider call\<close>
  "terminalEntry r =
     (case r of
        Inr aiResponse \<Rightarrow> \<lparr>role = Ai, content = aiResponse\<rparr>
      | Inl err \<Rightarrow> \<lparr>role = Err, content = S ''Error: '' @ errMessage err\<rparr>)"

definition outcome :: "variant \<Rightarrow> env \<Rightarrow> state \<Rightarrow> userMessage \<Rightarrow> js_error + jsstring" where
  \<comment> \<open>the outcome of the provider call of a turn\<close>
  "outcome v env st message =
     fst (callAI env (awaiting v env st message) (content (userEntry v env st message)) False)"

fun userTurns :: "variant \<Rightarrow> state \<Rightarrow> (env \<times> userMessage) list \<Rightarrow> state" where
  \<comment> \<open>a sequence of turns, each handled to completion before the next starts\<close>
  "userTurns v st [] = st"
| "userTurns v st ((env, message) # turns) = userTurns v (handleUserMessage v env st message) turns"

section \<open>The specification's wording\<close>

text \<open>
  The definitions of this section follow the words of the specification, for comparison
  with what the controller computes.
\<close>

definition fenced :: "jsstring \<Rightarrow> jsstring" where
  \<comment> \<open>a triple-backtick fenced block of a text\<close>
  "fenced c = S ''```'' @ S ''\<newline>'' @ c @ S ''\<newline>'' @ S ''```''"

definition promptTemplate :: "contextItem list \<Rightarrow> jsstring \<Rightarrow> jsstring" where
  \<comment> \<open>a \<open>**Context:**\<close> section listing each item as a bolded icon-and-name label
      followed by a fenced block of its content, the items joined by blank lines, then a
      \<open>**Question:**\<close> section with the question\<close>
  "promptTemplate items question =
     S ''**Context:**'' @ S ''\<newline>''
       @ join (S ''\<newline>\<newline>'')
           (map (\<lambda>i. S ''**'' @ ci_icon i @ S '' '' @ ci_name i @ S '':**'' @ S ''\<newline>''
                        @ fenced (ci_content i))
              items)
       @ S ''\<newline>\<newline>'' @ S ''**Question:**'' @ S ''\<newline>'' @ question"

definition providerLabel :: "jsstring \<Rightarrow> jsstring" where
  \<comment> \<open>the name by which an error message names a provider\<close>
  "providerLabel p =
     (if p = S ''gpt'' then S ''OpenAI''
      else if p = S ''claude'' then S ''Claude''
      else if p = S ''grok'' then S ''Grok''
      else if p = S ''gemini'' then S ''Gemini''
      else [])"

definition apiKeyOf :: "env \<Rightarrow> jsstring \<Rightarrow> jsstring" where
  \<comment> \<open>the configured credential of a provider, empty when absent\<close>
  "apiKeyOf env p =
     (if p = S ''gpt'' then configGet (gptApiKey env) []
      else if p = S ''claude'' then configGet (claudeApiKey env) []
      else if p = S ''grok'' then configGet (grokApiKey env) []
      else if p = S ''gemini'' then configGet (geminiApiKey env) []
      else [])"

definition missingKeyMessage :: "jsstring \<Rightarrow> jsstring" where
  "missingKeyMessage p =
     S ''No '' @ providerLabel p @ S '' API key set. Please add it in the extension settings.''"

definition bodyMessages :: "requestBody \<Rightarrow> (jsstring \<times> jsstring) list" where
  \<comment> \<open>the role and text of each message of a request body, in order\<close>
  "bodyMessages b =
     (case b of ChatBody model ms \<Rightarrow> ms | ClaudeBody model maxTokens ms \<Rightarrow> ms
      | GeminiBody ms maxTokens \<Rightarrow> ms)"

definition sentText :: "request \<Rightarrow> jsstring" where
  \<comment> \<open>the new prompt of a request: the text of its last message\<close>
  "sentText r = (case rev (bodyMessages (body r)) of [] \<Rightarrow> [] | m # _ \<Rightarrow> snd m)"

definition currentContextBlock :: "env \<Rightarrow> editor \<Rightarrow> jsstring" where
  \<comment> \<open>the \<open>Current Context\<close> block: workspace name, active file name and path, language
      id, and the selection's line range if there is a selection\<close>
  "currentContextBlock env e =
     S ''**Current Context:**\<newline>''
       @ S ''- Workspace: '' @ (case docFolderName e of None \<Rightarrow> S ''Unknown'' | Some n \<Rightarrow> n)
       @ S ''\<newline>''
       @ S ''- Current file: `'' @ lastSegment (fileName e) @ S ''`\<newline>''
       @ S ''- File path: `'' @ asRelativePath env (fileName e) @ S ''`\<newline>''
       @ S ''- Language: '' @ languageId e
       @ (if selectionIsEmpty e then []
          else S ''\<newline>- Selected lines: '' @ digits (fst (selStart e) + 1) @ S ''-''
                 @ digits (fst (selEnd e) + 1))
       @ S ''\<newline>''"

definition withinRoot :: "jsstring \<Rightarrow> jsstring \<Rightarrow> bool" where
  \<comment> \<open>an absolute path stays within a root directory: it is the root, or it continues
      the root after a separator\<close>
  "withinRoot root p = (p = root \<or> startsWith p (root @ S ''/''))"

definition blank :: "jsval \<Rightarrow> bool" where
  \<comment> \<open>the expected text field is lacking: the guarded chain ended in \<open>undefined\<close>, in
      \<open>null\<close>, or in a string that is empty after trimming\<close>
  "blank x = (case x of Undefined \<Rightarrow> True | V JNull \<Rightarrow> True | V (JStr s) \<Rightarrow> trim s = [] | V _ \<Rightarrow> False)"

section \<open>Concrete inputs\<close>

definition emptyEnv :: env where
  \<comment> \<open>no editor, no workspace folder, no credential, transport unreachable\<close>
  "emptyEnv =
     \<lparr>activeTextEditor = None, workspaceFolders = [], asRelativePath = (\<lambda>p. p), cwd = S ''/'',
      execFind = (\<lambda>n p. None), readdirSync = (\<lambda>p. None), accessSync = (\<lambda>d f. False),
      fsReadError = (\<lambda>p. JsError (S ''Error'') (S ''ENOENT'')), fsWriteError = (\<lambda>p. None),
      activeProvider = None, gptApiKey = None, claudeApiKey = None, grokApiKey = None,
      geminiApiKey = None,
      fetch = (\<lambda>r. Inl (JsError (S ''FetchError'') (S ''network unreachable'')))\<rparr>"

definition wsEnv :: env where
  \<comment> \<open>one workspace folder \<open>/ws\<close>, no editor\<close>
  "wsEnv = emptyEnv\<lparr>workspaceFolders := [\<lparr>folderName = S ''ws'', fsPath = S ''/ws''\<rparr>]\<rparr>"

definition stateWith :: "(jsstring \<rightharpoonup> jsstring) \<Rightarrow> state" where
  \<comment> \<open>an empty history, both surfaces live, the given files\<close>
  "stateWith fs = \<lparr>messageHistory = [], view = True, panel = True, files = fs, trace = []\<rparr>"

definition plainMessage :: "jsstring \<Rightarrow> userMessage" where
  "plainMessage t = \<lparr>msgText = t, contextItems = [], inlineReferences = []\<rparr>"

definition demoEditor :: editor where
  \<comment> \<open>\<open>demo.ts\<close> with \<open>x=1\<close> selected on its third line\<close>
  "demoEditor =
     \<lparr>fileName = S ''/ws/demo.ts'', languageId = S ''typescript'', docText = S ''a\<newline>b\<newline>x=1\<newline>'',
      lineCount = 4, selStart = (2, 0), selEnd = (2, 3), selText = S ''x=1'',
      docFolderName = Some (S ''ws'')\<rparr>"

definition editorEnv :: env where
  "editorEnv = wsEnv\<lparr>activeTextEditor := Some demoEditor\<rparr>"

definition demoSelection :: contextItem where
  "demoSelection =
     \<lparr>ci_icon = iconMemo, ci_name = S ''demo.ts:3-3'', ci_content = S ''x=1'',
      ci_props =
        [(S ''type'', S ''selection''), (S ''fullName'', S ''Selection from demo.ts (lines 3-3)'')]\<rparr>"

definition nullEnvelopeEnv :: env where
  \<comment> \<open>the OpenAI transport answers 200 with the JSON document \<open>null\<close>\<close>
  "nullEnvelopeEnv =
     emptyEnv\<lparr>gptApiKey := Some (S ''k''),
              fetch := (\<lambda>r. Inr \<lparr>ok = True, bodyText = S ''null'', bodyJson = Inr JNull\<rparr>)\<rparr>"


definition bubbleMessage :: userMessage where
  \<comment> \<open>\<open>fix [selection]\<close> sent with one selection bubble\<close>
  "bubbleMessage =
     \<lparr>msgText = S ''fix [selection]'',
      contextItems =
        [\<lparr>b_type = S ''selection'', b_path = None, b_icon = None, b_name = S ''demo.ts:3-3'',
          b_content = S ''x=1''\<rparr>],
      inlineReferences = []\<rparr>"

definition keyEnv :: env where
  \<comment> \<open>no editor, the default provider, an OpenAI credential, the transport unreachable\<close>
  "keyEnv = emptyEnv\<lparr>gptApiKey := Some (S ''k'')\<rparr>"

definition editorKeyEnv :: env where
  \<comment> \<open>\<open>demo.ts\<close> open with a selection, the default provider, an OpenAI credential\<close>
  "editorKeyEnv = editorEnv\<lparr>gptApiKey := Some (S ''k'')\<rparr>"

definition twoArrivals :: "occurrence list" where
  \<comment> \<open>a second \<open>userMessage\<close> arrives while the call of the first is outstanding\<close>
  "twoArrivals =
     [UserMessage keyEnv (plainMessage (S ''A'')), UserMessage keyEnv (plainMessage (S ''B''))]"

section \<open>Helper lemmas\<close>

lemma historyStates_append [simp]: "historyStates (xs @ ys) = historyStates xs @ historyStates ys"
  by (induction xs rule: historyStates.induct) auto

lemma fetches_append [simp]: "fetches (xs @ ys) = fetches xs @ fetches ys"
  by (induction xs rule: fetches.induct) auto

lemma setHistory_sel [simp]:
  "messageHistory (setHistory st h) = h"
  "trace (setHistory st h) = trace st @ [HistorySet h]"
  "view (setHistory st h) = view st"
  "panel (setHistory st h) = panel st"
  "files (setHistory st h) = files st"
  by (simp_all add: setHistory_def)

lemma push_sel [simp]:
  "messageHistory (push st m) = messageHistory st @ [m]"
  "trace (push st m) = trace st @ [HistorySet (messageHistory st @ [m])]"
  "view (push st m) = view st"
  "panel (push st m) = panel st"
  "files (push st m) = files st"
  by (simp_all add: push_def)

lemma postMessageHistory_sel [simp]:
  "messageHistory (postMessageHistory st) = messageHistory st"
  "trace (postMessageHistory st) = trace st @ (if view st then [PostView (messageHistory st)] else [])"
  "view (postMessageHistory st) = view st"
  "panel (postMessageHistory st) = panel st"
  "files (postMessageHistory st) = files st"
  by (simp_all add: postMessageHistory_def)

lemma postMessageHistoryToPanel_sel [simp]:
  "messageHistory (postMessageHistoryToPanel st) = messageHistory st"
  "trace (postMessageHistoryToPanel st) = trace st @ (if panel st then [PostPanel (messageHistory st)] else [])"
  "view (postMessageHistoryToPanel st) = view st"
  "panel (postMessageHistoryToPanel st) = panel st"
  "files (postMessageHistoryToPanel st) = files st"
  by (simp_all add: postMessageHistoryToPanel_def)

lemma broadcast_sel [simp]:
  "messageHistory (broadcast st) = messageHistory st"
  "trace (broadcast st) = trace st @ (if view st then [PostView (messageHistory st)] else [])
      @ (if panel st then [PostPanel (messageHistory st)] else [])"
  "view (broadcast st) = view st"
  "panel (broadcast st) = panel st"
  "files (broadcast st) = files st"
  by (simp_all add: broadcast_def)

lemma removeLoading_sel [simp]:
  "messageHistory (removeLoading st) = filter (\<lambda>m. role m \<noteq> Loading) (messageHistory st)"
  "trace (removeLoading st) = trace st @ [HistorySet (filter (\<lambda>m. role m \<noteq> Loading) (messageHistory st))]"
  "view (removeLoading st) = view st"
  "panel (removeLoading st) = panel st"
  "files (removeLoading st) = files st"
  by (simp_all add: removeLoading_def)

lemma readFile_sel [simp]:
  "fst (readFile st p) = files st p"
  "messageHistory (snd (readFile st p)) = messageHistory st"
  "trace (snd (readFile st p)) = trace st @ [FsRead p]"
  "view (snd (readFile st p)) = view st"
  "panel (snd (readFile st p)) = panel st"
  "files (snd (readFile st p)) = files st"
  by (simp_all add: readFile_def)

lemma writeFile_sel [simp]:
  "fst (writeFile env st p c) = fsWriteError env p"
  "messageHistory (snd (writeFile env st p c)) = messageHistory st"
  "trace (snd (writeFile env st p c)) = trace st @ [FsWrite p c]"
  "view (snd (writeFile env st p c)) = view st"
  "panel (snd (writeFile env st p c)) = panel st"
  by (simp_all add: writeFile_def split: option.splits)

lemma send_sel [simp]:
  "fst (send env st r) = fetch env r"
  "messageHistory (snd (send env st r)) = messageHistory st"
  "trace (snd (send env st r)) = trace st @ [Fetch r]"
  "view (snd (send env st r)) = view st"
  "panel (snd (send env st r)) = panel st"
  "files (snd (send env st r)) = files st"
  by (simp_all add: send_def)

lemma quiet_refl [simp]: "quiet st st"
  by (simp add: quiet_def)

lemma quiet_trans: "quiet a b \<Longrightarrow> quiet b c \<Longrightarrow> quiet a c"
  by (simp add: quiet_def)

lemma quiet_readFile [simp]: "quiet st (snd (readFile st p))"
  by (simp add: quiet_def)

lemma quiet_writeFile [simp]: "quiet st (snd (writeFile env st p c))"
  by (simp add: quiet_def)

lemma quiet_send [simp]: "quiet st (snd (send env st r))"
  by (simp add: quiet_def)

lemma quiet_handleAddFileToContext: "quiet st (snd (handleAddFileToContext env st p))"
  by (cases "readFile st p") (auto simp: handleAddFileToContext_def quiet_def readFile_def split: option.splits)

lemma quiet_handleReadFile: "quiet st (snd (handleReadFile env st p))"
  by (auto simp: handleReadFile_def Let_def quiet_def readFile_def split: list.splits option.splits prod.splits)

lemma quiet_handleEditFile: "quiet st (snd (handleEditFile env st p c))"
  by (auto simp: handleEditFile_def Let_def quiet_def writeFile_def split: list.splits option.splits prod.splits)

lemma quiet_callOpenAIGPT: "quiet st (snd (callOpenAIGPT env st u))"
  by (auto simp: callOpenAIGPT_def Let_def quiet_def send_def split: prod.splits)

lemma quiet_callClaudeStub: "quiet st (snd (callClaudeStub env st u))"
  by (auto simp: callClaudeStub_def Let_def quiet_def send_def split: prod.splits)

lemma quiet_callGrokStub: "quiet st (snd (callGrokStub env st u))"
  by (auto simp: callGrokStub_def Let_def quiet_def send_def split: prod.splits)

lemma quiet_callGeminiStub: "quiet st (snd (callGeminiStub env st u))"
  by (auto simp: callGeminiStub_def Let_def quiet_def send_def split: prod.splits)

lemma quiet_callAI: "quiet st (snd (callAI env st u b))"
proof (cases "startsWith u (S ''/read '')")
  case True
  then show ?thesis
    using quiet_handleReadFile [of st env "trim (replace u (S ''/read '') [])"]
    by (simp add: callAI_def split_beta)
next
  case notRead: False
  show ?thesis
  proof (cases "startsWith u (S ''/edit '')")
    case True
    show ?thesis
    proof (cases "editMatch u")
      case None
      with notRead True show ?thesis by (simp add: callAI_def)
    next
      case (Some pc)
      obtain p c where pc: "pc = (p, c)" by (cases pc)
      show ?thesis
        using notRead True Some pc quiet_handleEditFile [of st env p c]
        by (simp add: callAI_def split_beta)
    qed
  next
    case False
    with notRead show ?thesis
      by (simp add: callAI_def Let_def quiet_callOpenAIGPT quiet_callClaudeStub
            quiet_callGrokStub quiet_callGeminiStub)
  qed
qed

lemma quiet_resolveBubbles:
  "quiet st (snd (resolveBubbles env bs (refs, st)))"
proof (induction bs arbitrary: refs st)
  case Nil
  show ?case by simp
next
  case (Cons b bs)
  show ?case
  proof (cases "b_type b = S ''file'' \<and> orDefault (b_path b) [] \<noteq> []")
    case True
    obtain r st' where h: "handleAddFileToContext env st (orDefault (b_path b) []) = (r, st')"
      by (cases "handleAddFileToContext env st (orDefault (b_path b) [])")
    have q: "quiet st st'"
      using quiet_handleAddFileToContext [of st env "orDefault (b_path b) []"] h by simp
    show ?thesis
      using True h q Cons.IH [of st']
      by (cases r) (auto intro: quiet_trans)
  next
    case False
    then show ?thesis using Cons.IH [of st] by auto
  qed
qed

lemma quiet_resolveReferences: "quiet st (snd (resolveReferences v env st m))"
  by (simp add: resolveReferences_def split_beta quiet_resolveBubbles)

lemma handleUserMessage_eq:
  "handleUserMessage v env st m =
     broadcast
       (push (removeLoading (snd (callAI env (awaiting v env st m) (content (userEntry v env st m)) False)))
          (terminalEntry (outcome v env st m)))"
  by (simp add: handleUserMessage_def beginTurn_def settleTurn_def awaiting_def userEntry_def
        outcome_def terminalEntry_def loadingEntry_def Let_def split_beta split: sum.splits)

lemma awaiting_sel:
  "messageHistory (awaiting v env st m) = messageHistory st @ [userEntry v env st m, loadingEntry]"
  "historyStates (trace (awaiting v env st m)) =
     historyStates (trace st)
       @ [messageHistory st @ [userEntry v env st m],
          messageHistory st @ [userEntry v env st m, loadingEntry]]"
  "view (awaiting v env st m) = view st"
  "panel (awaiting v env st m) = panel st"
  using quiet_resolveReferences [of st v env m]
  by (simp_all add: awaiting_def quiet_def)

lemma role_userEntry [simp]: "role (userEntry v env st m) = User"
  by (simp add: userEntry_def split_beta)

lemma role_terminalEntry: "role (terminalEntry r) = Ai \<or> role (terminalEntry r) = Err"
  by (simp add: terminalEntry_def split: sum.splits)

lemma handleUserMessage_history:
  "messageHistory (handleUserMessage v env st m) =
     filter (\<lambda>x. role x \<noteq> Loading) (messageHistory st)
       @ [userEntry v env st m, terminalEntry (outcome v env st m)]"
  using quiet_callAI [of "awaiting v env st m" env "content (userEntry v env st m)" False]
  by (simp add: handleUserMessage_eq quiet_def awaiting_sel loadingEntry_def)

lemma handleUserMessage_historyStates:
  "historyStates (trace (handleUserMessage v env st m)) =
     historyStates (trace st)
       @ [messageHistory st @ [userEntry v env st m],
          messageHistory st @ [userEntry v env st m, loadingEntry],
          filter (\<lambda>x. role x \<noteq> Loading) (messageHistory st) @ [userEntry v env st m],
          filter (\<lambda>x. role x \<noteq> Loading) (messageHistory st)
            @ [userEntry v env st m, terminalEntry (outcome v env st m)]]"
  using quiet_callAI [of "awaiting v env st m" env "content (userEntry v env st m)" False]
  by (simp add: handleUserMessage_eq quiet_def awaiting_sel loadingEntry_def)

lemma S_append: "S a @ S b = S (a @ b)"
  by (simp add: S_def)

lemma noAdjacentLoading_none:
  "\<forall>x\<in>set xs. role x \<noteq> Loading \<Longrightarrow> noAdjacentLoading xs"
  by (induction xs rule: noAdjacentLoading.induct) auto

lemma noAdjacentLoading_filter: "noAdjacentLoading (filter (\<lambda>x. role x \<noteq> Loading) xs)"
  by (rule noAdjacentLoading_none) simp

lemma noAdjacentLoading_snoc:
  "noAdjacentLoading xs \<Longrightarrow> role u \<noteq> Loading \<Longrightarrow> noAdjacentLoading (xs @ [u])"
  by (induction xs rule: noAdjacentLoading.induct) auto

lemma noAdjacentLoading_snoc2:
  "noAdjacentLoading (xs @ [u]) \<Longrightarrow> role u \<noteq> Loading \<Longrightarrow> noAdjacentLoading (xs @ [u, l])"
  by (induction xs rule: noAdjacentLoading.induct) auto

lemma role_terminalEntry_notLoading [simp]: "role (terminalEntry r) \<noteq> Loading"
  using role_terminalEntry [of r] by auto


lemma fetches_resolveBubbles:
  "fetches (trace (snd (resolveBubbles env bs (refs, st)))) = fetches (trace st)"
proof (induction bs arbitrary: refs st)
  case Nil
  show ?case by simp
next
  case (Cons b bs)
  show ?case
  proof (cases "b_type b = S ''file'' \<and> orDefault (b_path b) [] \<noteq> []")
    case True
    have "fetches (trace (snd (handleAddFileToContext env st (orDefault (b_path b) [])))) = fetches (trace st)"
      by (simp add: handleAddFileToContext_def readFile_def split: option.splits)
    then show ?thesis
      using True Cons.IH
      by (cases "handleAddFileToContext env st (orDefault (b_path b) [])")
         (auto split: option.splits)
  next
    case False
    then show ?thesis using Cons.IH [of _ st] by auto
  qed
qed

lemma fetches_resolveReferences:
  "fetches (trace (snd (resolveReferences v env st m))) = fetches (trace st)"
  by (simp add: resolveReferences_def split_beta fetches_resolveBubbles)

lemma fetches_awaiting: "fetches (trace (awaiting v env st m)) = fetches (trace st)"
  by (simp add: awaiting_def fetches_resolveReferences)

lemma contextBlock_spec:
  "contextBlock =
     (\<lambda>i. S ''**'' @ ci_icon i @ S '' '' @ ci_name i @ S '':**'' @ S ''\<newline>'' @ fenced (ci_content i))"
  by (rule ext) (simp add: contextBlock_def fenced_def S_def)

lemma finalMessage_template:
  "items \<noteq> [] \<Longrightarrow> finalMessage items substituted question = promptTemplate items question"
  unfolding finalMessage_def promptTemplate_def contextBlock_spec
  by (simp add: S_def)


lemma getCurrentSelection_editorEnv: "getCurrentSelection editorEnv = Some demoSelection"
  by (simp add: getCurrentSelection_def editorEnv_def wsEnv_def emptyEnv_def demoEditor_def
        demoSelection_def selectionIsEmpty_def lastSegment_def isPathSep_def orElse_def S_def)

lemma resolve_fix_selection:
  "resolveReferences Part000 editorEnv (stateWith Map.empty) (plainMessage (S ''fix [selection]''))
     = ((S ''fix **'' @ iconMemo @ S '' demo.ts:3-3**'', [demoSelection]), stateWith Map.empty)"
proof -
  have 1: "includes_str (S ''fix [selection]'') (S ''[selection]'')"
    by (simp add: includes_str_def S_def startsWith_def)
  have 2: "replace (S ''fix [selection]'') (S ''[selection]'') (label demoSelection)
      = S ''fix **'' @ iconMemo @ S '' demo.ts:3-3**''"
    by (simp add: replace_def S_def startsWith_def label_def demoSelection_def iconMemo_def)
  have 3: "\<not> includes_str (S ''fix **'' @ iconMemo @ S '' demo.ts:3-3**'') (S ''[file]'')"
    "\<not> includes_str (S ''fix **'' @ iconMemo @ S '' demo.ts:3-3**'') (S ''[workspace]'')"
    by (simp_all add: includes_str_def S_def startsWith_def iconMemo_def)
  show ?thesis
    by (simp add: resolveReferences_def resolveSelectionMarker_def resolveFileMarker_def
          resolveWorkspaceMarker_def plainMessage_def 1 2 3 getCurrentSelection_editorEnv)
qed


lemma provider_names_distinct:
  "S ''gpt'' \<noteq> S ''claude''" "S ''gpt'' \<noteq> S ''grok''" "S ''gpt'' \<noteq> S ''gemini''"
  "S ''claude'' \<noteq> S ''gpt''" "S ''claude'' \<noteq> S ''grok''" "S ''claude'' \<noteq> S ''gemini''"
  "S ''grok'' \<noteq> S ''gpt''" "S ''grok'' \<noteq> S ''claude''" "S ''grok'' \<noteq> S ''gemini''"
  "S ''gemini'' \<noteq> S ''gpt''" "S ''gemini'' \<noteq> S ''claude''" "S ''gemini'' \<noteq> S ''grok''"
  by (simp_all add: S_def)

lemma callAI_provider:
  assumes "\<not> startsWith u (S ''/read '')" and "\<not> startsWith u (S ''/edit '')"
  shows "callAI env st u b =
     (let enhanced =
            (if b then (case getWorkspaceContext env of
                          Some contextInfo \<Rightarrow> contextInfo @ S ''\<newline>\<newline>**User Question:**\<newline>'' @ u
                        | None \<Rightarrow> u)
             else u);
          provider = configGet (activeProvider env) (S ''gpt'')
      in if provider = S ''gpt'' then callOpenAIGPT env st enhanced
         else if provider = S ''claude'' then callClaudeStub env st enhanced
         else if provider = S ''grok'' then callGrokStub env st enhanced
         else if provider = S ''gemini'' then callGeminiStub env st u
         else (Inl (JsError (S ''Error'') (S ''Unknown provider: '' @ provider)), st))"
  using assms by (simp add: callAI_def)

lemma callAI_missing_key:
  assumes "\<not> startsWith u (S ''/read '')" and "\<not> startsWith u (S ''/edit '')"
    and "configGet (activeProvider env) (S ''gpt'') = p"
    and "p \<in> {S ''gpt'', S ''claude'', S ''grok'', S ''gemini''}"
    and "apiKeyOf env p = []"
  shows "callAI env st u b = (Inl (JsError (S ''Error'') (missingKeyMessage p)), st)"
proof -
  consider "p = S ''gpt''" | "p = S ''claude''" | "p = S ''grok''" | "p = S ''gemini''"
    using assms(4) by auto
  then show ?thesis
  proof cases
    case 1
    with assms show ?thesis
      by (simp add: callAI_provider Let_def callOpenAIGPT_def apiKeyOf_def missingKeyMessage_def
            providerLabel_def S_append)
  next
    case 2
    with assms show ?thesis
      by (simp add: callAI_provider Let_def callClaudeStub_def apiKeyOf_def missingKeyMessage_def
            providerLabel_def S_append provider_names_distinct)
  next
    case 3
    with assms show ?thesis
      by (simp add: callAI_provider Let_def callGrokStub_def apiKeyOf_def missingKeyMessage_def
            providerLabel_def S_append provider_names_distinct)
  next
    case 4
    with assms show ?thesis
      by (simp add: callAI_provider Let_def callGeminiStub_def apiKeyOf_def missingKeyMessage_def
            providerLabel_def S_append provider_names_distinct)
  qed
qed

lemma handleUserMessage_trace:
  "trace (handleUserMessage v env st m) =
     trace (snd (callAI env (awaiting v env st m) (content (userEntry v env st m)) False))
       @ [HistorySet (filter (\<lambda>x. role x \<noteq> Loading) (messageHistory st) @ [userEntry v env st m]),
          HistorySet (filter (\<lambda>x. role x \<noteq> Loading) (messageHistory st)
                        @ [userEntry v env st m, terminalEntry (outcome v env st m)])]
       @ (if view st
          then [PostView (filter (\<lambda>x. role x \<noteq> Loading) (messageHistory st)
                            @ [userEntry v env st m, terminalEntry (outcome v env st m)])]
          else [])
       @ (if panel st
          then [PostPanel (filter (\<lambda>x. role x \<noteq> Loading) (messageHistory st)
                             @ [userEntry v env st m, terminalEntry (outcome v env st m)])]
          else [])"
  using quiet_callAI [of "awaiting v env st m" env "content (userEntry v env st m)" False]
  by (simp add: handleUserMessage_eq quiet_def awaiting_sel loadingEntry_def)


lemma hi_plain:
  "\<not> startsWith (S ''hi'') (S ''/read '')" "\<not> startsWith (S ''hi'') (S ''/edit '')"
  "\<not> includes_str (S ''hi'') (S ''[selection]'')" "\<not> includes_str (S ''hi'') (S ''[file]'')"
  "\<not> includes_str (S ''hi'') (S ''[workspace]'')"
  by (simp_all add: includes_str_def S_def startsWith_def)

lemma userEntry_plain:
  assumes "\<not> includes_str t (S ''[selection]'')" "\<not> includes_str t (S ''[file]'')"
    "\<not> includes_str t (S ''[workspace]'')"
  shows "userEntry v env st (plainMessage t) = \<lparr>role = User, content = t\<rparr>"
  using assms
  by (simp add: userEntry_def resolveReferences_def resolveSelectionMarker_def
        resolveFileMarker_def resolveWorkspaceMarker_def plainMessage_def finalMessage_def)


lemma resolve_escape: "pathResolve (S ''/'') [S ''/ws'', S ''../ws2/secret.txt''] = S ''/ws2/secret.txt''"
  by (simp add: pathResolve_def S_def)

lemma resolve_escape_edit: "pathResolve (S ''/'') [S ''/ws'', S ''../ws2/x.txt''] = S ''/ws2/x.txt''"
  by (simp add: pathResolve_def S_def)

lemma resolve_outside: "pathResolve (S ''/'') [S ''/ws'', S ''../outside.txt''] = S ''/outside.txt''"
  by (simp add: pathResolve_def S_def)

lemma wsEnv_sel:
  "workspaceFolders wsEnv = [\<lparr>folderName = S ''ws'', fsPath = S ''/ws''\<rparr>]"
  "cwd wsEnv = S ''/''"
  "fsWriteError wsEnv = (\<lambda>p. None)"
  "activeTextEditor wsEnv = None"
  by (simp_all add: wsEnv_def emptyEnv_def)

lemma read_cmd:
  "startsWith (S ''/read ../ws2/secret.txt'') (S ''/read '')"
  "trim (replace (S ''/read ../ws2/secret.txt'') (S ''/read '') []) = S ''../ws2/secret.txt''"
  by (simp_all add: startsWith_def replace_def trim_def isWhitespace_def S_def)

lemma edit_cmd:
  "\<not> startsWith (S ''/edit ../ws2/x.txt pwned'') (S ''/read '')"
  "startsWith (S ''/edit ../ws2/x.txt pwned'') (S ''/edit '')"
  "editMatch (S ''/edit ../ws2/x.txt pwned'') = Some (S ''../ws2/x.txt'', S ''pwned'')"
  by (simp_all add: startsWith_def editMatch_def isWhitespace_def S_def)


lemma withinRoot_startsWith: "withinRoot root p \<Longrightarrow> startsWith p root"
proof -
  assume "withinRoot root p"
  then consider "p = root" | "take (length (root @ S ''/'')) p = root @ S ''/''"
    by (auto simp: withinRoot_def startsWith_def)
  then show ?thesis
  proof cases
    case 1
    then show ?thesis by (simp add: startsWith_def)
  next
    case 2
    then have "take (length root) (take (length (root @ S ''/'')) p) = take (length root) (root @ S ''/'')"
      by simp
    then show ?thesis by (simp add: startsWith_def min_def)
  qed
qed


lemma getSubstitution_plain:
  "0x24 \<notin> set r \<Longrightarrow> getSubstitution m p f r = r"
  by (induction m p f r rule: getSubstitution.induct) auto

lemma replace_plain:
  assumes "indexOf t p = Some i" and "0x24 \<notin> set r"
  shows "replace t p r = take i t @ r @ drop (i + length p) t"
  using assms by (simp add: replace_def getSubstitution_plain)

lemma noSelectionFound_plain: "0x24 \<notin> set noSelectionFound"
  by (simp add: noSelectionFound_def S_def)

lemma resolveFileMarker_none:
  "snd (resolveFileMarker env (fm, refs)) = [] \<Longrightarrow>
     refs = [] \<and> resolveFileMarker env (fm, refs) = (fm, [])"
  by (auto simp: resolveFileMarker_def split: if_splits option.splits)

lemma resolveWorkspaceMarker_none:
  "snd (resolveWorkspaceMarker env (fm, refs)) = [] \<Longrightarrow>
     refs = [] \<and> resolveWorkspaceMarker env (fm, refs) = (fm, [])"
  by (auto simp: resolveWorkspaceMarker_def split: if_splits option.splits)

lemma resolveBubbles_none:
  "fst (resolveBubbles env bs (refs, st)) = [] \<Longrightarrow> refs = []"
proof (induction bs arbitrary: refs st)
  case Nil
  then show ?case by simp
next
  case (Cons b bs)
  show ?case
  proof (cases "b_type b = S ''file'' \<and> orDefault (b_path b) [] \<noteq> []")
    case True
    obtain r st' where h: "handleAddFileToContext env st (orDefault (b_path b) []) = (r, st')"
      by (cases "handleAddFileToContext env st (orDefault (b_path b) [])")
    show ?thesis
    proof (cases r)
      case None
      with True h Cons.prems have "fst (resolveBubbles env bs (refs, st')) = []" by simp
      then show ?thesis by (rule Cons.IH)
    next
      case (Some fc)
      with True h Cons.prems have "fst (resolveBubbles env bs (refs @ [fc], st')) = []" by simp
      then have "refs @ [fc] = []" by (rule Cons.IH)
      then show ?thesis by simp
    qed
  next
    case False
    show ?thesis
    proof (cases "b_type b = S ''selection''")
      case True
      with False Cons.prems
      have "fst (resolveBubbles env bs
                   (refs @ [\<lparr>ci_icon = orDefault (b_icon b) iconMemo, ci_name = b_name b,
                             ci_content = b_content b, ci_props = []\<rparr>], st)) = []"
        by auto
      then have "refs @ [\<lparr>ci_icon = orDefault (b_icon b) iconMemo, ci_name = b_name b,
                             ci_content = b_content b, ci_props = []\<rparr>] = []"
        by (rule Cons.IH)
      then show ?thesis by simp
    next
      case notSel: False
      with False Cons.prems have "fst (resolveBubbles env bs (refs, st)) = []" by auto
      then show ?thesis by (rule Cons.IH)
    qed
  qed
qed

lemma resolveInlineRefs_none:
  "snd (resolveInlineRefs rs (fm, refs)) = [] \<Longrightarrow> rs = [] \<and> refs = []"
proof (induction rs arbitrary: fm refs)
  case Nil
  then show ?case by simp
next
  case (Cons r rs)
  from Cons.prems Cons.IH [of _ "refs @ [_]"] show ?case by fastforce
qed

lemma resolveReferences_none:
  assumes "snd (fst (resolveReferences v env st m)) = []"
  shows "fst (fst (resolveReferences v env st m)) = fst (resolveSelectionMarker v env (msgText m, []))"
    and "snd (resolveSelectionMarker v env (msgText m, [])) = []"
proof -
  let ?s = "resolveSelectionMarker v env (msgText m, [])"
  let ?f = "resolveFileMarker env ?s"
  let ?w = "resolveWorkspaceMarker env ?f"
  let ?b = "resolveBubbles env (contextItems m) (snd ?w, st)"
  have e: "fst (resolveReferences v env st m) = resolveInlineRefs (inlineReferences m) (fst ?w, fst ?b)"
    by (simp add: resolveReferences_def split_beta)
  from assms e have i: "inlineReferences m = []" and b: "fst ?b = []"
    using resolveInlineRefs_none [of "inlineReferences m" "fst ?w" "fst ?b"] by simp_all
  from b have w: "snd ?w = []" by (rule resolveBubbles_none)
  then have f: "snd ?f = []" and w': "?w = (fst ?f, [])"
    using resolveWorkspaceMarker_none [of env "fst ?f" "snd ?f"] by simp_all
  from f show s: "snd ?s = []"
    using resolveFileMarker_none [of env "fst ?s" "snd ?s"] by simp
  from f have f': "?f = (fst ?s, [])"
    using resolveFileMarker_none [of env "fst ?s" "snd ?s"] by simp
  show "fst (fst (resolveReferences v env st m)) = fst ?s"
    using e i w' f' by simp
qed


lemma includes_indexOf: "includes_str t p \<Longrightarrow> \<exists>i. indexOf t p = Some i"
  by (simp add: includes_str_def)

lemma marker_length: "length (S ''[selection]'') = 11"
  by (simp add: S_def)


lemma emptyEnv_unresolvable:
  "getCurrentSelection emptyEnv = None" "getCurrentFile emptyEnv = None"
  "getWorkspaceInfo emptyEnv = None"
  by (simp_all add: getCurrentSelection_def getCurrentFile_def getWorkspaceInfo_def emptyEnv_def)

lemma fix_selection_marker:
  "includes_str (S ''fix [selection]'') (S ''[selection]'')"
  "indexOf (S ''fix [selection]'') (S ''[selection]'') = Some 4"
  by (simp_all add: includes_str_def S_def startsWith_def)


lemma callAI_read:
  assumes "startsWith userText (S ''/read '')"
  shows "callAI env st userText b =
     (Inr (fst (handleReadFile env st (trim (replace userText (S ''/read '') [])))),
      snd (handleReadFile env st (trim (replace userText (S ''/read '') []))))"
  using assms by (simp add: callAI_def split_beta)

lemma handleReadFile_readable:
  assumes "workspaceFolders env = wsf # rest"
    and "absPath = pathResolve (cwd env) [fsPath wsf, p]"
    and "startsWith absPath (fsPath wsf)"
    and "files st absPath = Some fileContent"
  shows "handleReadFile env st p =
     (if length fileContent > 4000
      then S ''File is too large to display in chat (showing first 4000 chars):\<newline>''
             @ take 4000 fileContent
      else S ''```\<newline>'' @ fileContent @ S ''\<newline>```'',
      st\<lparr>trace := trace st @ [FsRead absPath]\<rparr>)"
  using assms by (simp add: handleReadFile_def Let_def readFile_def)


lemma resolve_notes: "pathResolve (S ''/'') [S ''/ws'', S ''notes.md''] = S ''/ws/notes.md''"
  by (simp add: pathResolve_def S_def)

lemma resolve_big: "pathResolve (S ''/'') [S ''/ws'', S ''big.txt''] = S ''/ws/big.txt''"
  by (simp add: pathResolve_def S_def)

lemma read_notes_cmd:
  "startsWith (S ''/read notes.md'') (S ''/read '')"
  "trim (replace (S ''/read notes.md'') (S ''/read '') []) = S ''notes.md''"
  by (simp_all add: startsWith_def replace_def trim_def isWhitespace_def S_def)

lemma read_big_cmd:
  "startsWith (S ''/read big.txt'') (S ''/read '')"
  "trim (replace (S ''/read big.txt'') (S ''/read '') []) = S ''big.txt''"
  by (simp_all add: startsWith_def replace_def trim_def isWhitespace_def S_def)


lemma getWorkspaceContext_block:
  "getWorkspaceContext env = map_option (currentContextBlock env) (activeTextEditor env)"
  by (cases "activeTextEditor env")
     (simp_all add: getWorkspaceContext_def currentContextBlock_def Let_def S_def)

lemma sentText_last [simp]:
  "sentText \<lparr>url = u, headers = h, body = ChatBody md (ms @ [(r, t)])\<rparr> = t"
  "sentText \<lparr>url = u, headers = h, body = ClaudeBody md n (ms @ [(r, t)])\<rparr> = t"
  "sentText \<lparr>url = u, headers = h, body = ClaudeBody md n [(r, t)]\<rparr> = t"
  "sentText \<lparr>url = u, headers = h, body = GeminiBody (ms @ [(r, t)]) n\<rparr> = t"
  by (simp_all add: sentText_def bodyMessages_def)

lemma callOpenAIGPT_sends:
  "configGet (gptApiKey env) [] \<noteq> [] \<Longrightarrow>
     \<exists>req. trace (snd (callOpenAIGPT env st t)) = trace st @ [Fetch req] \<and> sentText req = t"
  by (simp add: callOpenAIGPT_def Let_def send_def)

lemma callClaudeStub_sends:
  "configGet (claudeApiKey env) [] \<noteq> [] \<Longrightarrow>
     \<exists>req. trace (snd (callClaudeStub env st t)) = trace st @ [Fetch req] \<and> sentText req = t"
  by (simp add: callClaudeStub_def Let_def send_def)

lemma callGrokStub_sends:
  "configGet (grokApiKey env) [] \<noteq> [] \<Longrightarrow>
     \<exists>req. trace (snd (callGrokStub env st t)) = trace st @ [Fetch req] \<and> sentText req = t"
  by (simp add: callGrokStub_def Let_def send_def)

lemma callGeminiStub_sends:
  "configGet (geminiApiKey env) [] \<noteq> [] \<Longrightarrow>
     \<exists>req. trace (snd (callGeminiStub env st t)) = trace st @ [Fetch req] \<and> sentText req = t"
  by (simp add: callGeminiStub_def Let_def send_def)


lemma fetches_single: "fetches [Fetch r] = [r]"
  by simp


lemma panelPosts_append [simp]: "panelPosts (xs @ ys) = panelPosts xs @ panelPosts ys"
  by (induction xs rule: panelPosts.induct) auto

lemma panelPosts_handleEditFile:
  "panelPosts (trace (snd (handleEditFile env st p c))) = panelPosts (trace st)"
  by (simp add: handleEditFile_def Let_def writeFile_def split: list.splits option.splits)


lemma beginTurn_eq:
  "beginTurn v env st m = (content (userEntry v env st m), awaiting v env st m)"
  by (simp add: beginTurn_def awaiting_def userEntry_def loadingEntry_def Let_def split_beta)

lemma settleTurn_eq:
  "settleTurn st r = broadcast (push (removeLoading st) (terminalEntry r))"
  by (simp add: settleTurn_def terminalEntry_def split: sum.splits)

lemma settleTurn_sel:
  "messageHistory (settleTurn st r) =
     filter (\<lambda>x. role x \<noteq> Loading) (messageHistory st) @ [terminalEntry r]"
  "historyStates (trace (settleTurn st r)) =
     historyStates (trace st)
       @ [filter (\<lambda>x. role x \<noteq> Loading) (messageHistory st),
          filter (\<lambda>x. role x \<noteq> Loading) (messageHistory st) @ [terminalEntry r]]"
  by (simp_all add: settleTurn_eq)

lemma occur_UserMessage:
  "occur v (st, pend) (UserMessage env m) =
     (snd (callAI env (awaiting v env st m) (content (userEntry v env st m)) False),
      pend @ [outcome v env st m])"
  by (simp add: beginTurn_eq outcome_def split_beta)

declare occur.simps(1) [simp del]

lemma occur_UserMessage_sel:
  "messageHistory (fst (occur v (st, pend) (UserMessage env m))) =
     messageHistory st @ [userEntry v env st m, loadingEntry]"
  "historyStates (trace (fst (occur v (st, pend) (UserMessage env m)))) =
     historyStates (trace st)
       @ [messageHistory st @ [userEntry v env st m],
          messageHistory st @ [userEntry v env st m, loadingEntry]]"
  "snd (occur v (st, pend) (UserMessage env m)) = pend @ [outcome v env st m]"
  using quiet_callAI [of "awaiting v env st m" env "content (userEntry v env st m)" False]
  unfolding occur_UserMessage by (simp_all add: quiet_def awaiting_sel)

lemma uninterrupted_turn:
  "run v (st, []) [UserMessage env m, CallSettles 0] = (handleUserMessage v env st m, [])"
  by (simp add: occur_UserMessage handleUserMessage_eq settleTurn_eq outcome_def)

lemma handleSendCurrentFile_appends:
  "\<exists>e. role e \<noteq> Loading
       \<and> messageHistory (handleSendCurrentFile env st) = messageHistory st @ [e]
       \<and> historyStates (trace (handleSendCurrentFile env st)) =
           historyStates (trace st) @ [messageHistory st @ [e]]"
  by (cases "activeTextEditor env") (simp_all add: handleSendCurrentFile_def Let_def)

lemma handleSendSelection_appends:
  "\<exists>e. role e \<noteq> Loading
       \<and> messageHistory (handleSendSelection env st) = messageHistory st @ [e]
       \<and> historyStates (trace (handleSendSelection env st)) =
           historyStates (trace st) @ [messageHistory st @ [e]]"
  by (cases "activeTextEditor env") (simp_all add: handleSendSelection_def Let_def)

lemma previewApply_appends:
  "\<exists>e. role e \<noteq> Loading
       \<and> messageHistory (showPreviewAndApply env st Apply p c) = messageHistory st @ [e]
       \<and> historyStates (trace (showPreviewAndApply env st Apply p c)) =
           historyStates (trace st) @ [messageHistory st @ [e]]"
  using quiet_handleEditFile [of st env p c]
  by (simp add: showPreviewAndApply_def split_beta quiet_def)

lemma loadingCount_simps [simp]:
  "loadingCount (h @ [e]) = loadingCount h + (if role e = Loading then 1 else 0)"
  "loadingCount (filter (\<lambda>x. role x \<noteq> Loading) h) = 0"
  "loadingCount [] = 0"
  by (simp_all add: loadingCount_def)

lemma steady_occur: "steady c \<Longrightarrow> steady (occur v c x)"
proof -
  assume s: "steady c"
  obtain st pend where c: "c = (st, pend)" by (cases c)
  from s c have n: "noAdjacentLoading (messageHistory st)"
    and a: "list_all noAdjacentLoading (historyStates (trace st))"
    and l: "loadingCount (messageHistory st) \<le> length pend"
    by (simp_all add: steady_def)
  have app: "steady (st', pend)"
    if "role e \<noteq> Loading" "messageHistory st' = messageHistory st @ [e]"
      "historyStates (trace st') = historyStates (trace st) @ [messageHistory st @ [e]]"
    for st' e
    using that n a l by (simp add: steady_def noAdjacentLoading_snoc)
  show ?thesis
  proof (cases x)
    case (UserMessage env m)
    let ?u = "userEntry v env st m"
    have n1: "noAdjacentLoading (messageHistory st @ [?u])"
      using n by (simp add: noAdjacentLoading_snoc)
    have n2: "noAdjacentLoading (messageHistory st @ [?u, loadingEntry])"
      using n1 by (simp add: noAdjacentLoading_snoc2)
    have lc: "loadingCount (messageHistory st @ [?u, loadingEntry]) = Suc (loadingCount (messageHistory st))"
      by (simp add: loadingCount_def loadingEntry_def)
    show ?thesis
      unfolding c UserMessage steady_def occur_UserMessage_sel
      using n1 n2 a l lc by simp
  next
    case (CallSettles i)
    show ?thesis
    proof (cases "i < length pend")
      case True
      have f: "noAdjacentLoading (filter (\<lambda>x. role x \<noteq> Loading) (messageHistory st))"
        by (rule noAdjacentLoading_filter)
      have g: "noAdjacentLoading (filter (\<lambda>x. role x \<noteq> Loading) (messageHistory st) @ [terminalEntry (pend ! i)])"
        by (rule noAdjacentLoading_none) simp
      show ?thesis
        using True a f g
        by (simp add: c CallSettles steady_def settleTurn_sel)
    next
      case False
      with s show ?thesis by (simp add: c CallSettles)
    qed
  next
    case (SendCurrentFile env)
    from handleSendCurrentFile_appends [of env st] app show ?thesis
      unfolding c SendCurrentFile by auto
  next
    case (SendSelection env)
    from handleSendSelection_appends [of env st] app show ?thesis
      unfolding c SendSelection by auto
  next
    case (PreviewApply env p content')
    from previewApply_appends [of env st p content'] app show ?thesis
      unfolding c PreviewApply by auto
  qed
qed

lemma steady_run: "steady c \<Longrightarrow> steady (run v c xs)"
  by (induction xs arbitrary: c) (simp_all add: steady_occur)


lemma ab_plain:
  "\<not> startsWith (S ''A'') (S ''/read '')" "\<not> startsWith (S ''A'') (S ''/edit '')"
  "\<not> includes_str (S ''A'') (S ''[selection]'')" "\<not> includes_str (S ''A'') (S ''[file]'')"
  "\<not> includes_str (S ''A'') (S ''[workspace]'')"
  "\<not> startsWith (S ''B'') (S ''/read '')" "\<not> startsWith (S ''B'') (S ''/edit '')"
  "\<not> includes_str (S ''B'') (S ''[selection]'')" "\<not> includes_str (S ''B'') (S ''[file]'')"
  "\<not> includes_str (S ''B'') (S ''[workspace]'')"
  by (simp_all add: includes_str_def S_def startsWith_def)

lemma userEntry_AB:
  "userEntry v env st (plainMessage (S ''A'')) = \<lparr>role = User, content = S ''A''\<rparr>"
  "userEntry v env st (plainMessage (S ''B'')) = \<lparr>role = User, content = S ''B''\<rparr>"
  by (rule userEntry_plain, (rule ab_plain)+)+

lemma keyEnv_sel:
  "configGet (activeProvider keyEnv) (S ''gpt'') = S ''gpt''"
  "configGet (gptApiKey keyEnv) [] \<noteq> []"
  "fetch keyEnv = (\<lambda>r. Inl (JsError (S ''FetchError'') (S ''network unreachable'')))"
  by (simp_all add: keyEnv_def emptyEnv_def configGet_def S_def)

lemma callAI_keyEnv:
  assumes "\<not> startsWith t (S ''/read '')" and "\<not> startsWith t (S ''/edit '')"
  shows "fst (callAI keyEnv st t False) = Inl (JsError (S ''FetchError'') (S ''network unreachable''))"
    and "\<exists>req. trace (snd (callAI keyEnv st t False)) = trace st @ [Fetch req]"
proof -
  have c: "callAI keyEnv st t False = callOpenAIGPT keyEnv st t"
    unfolding callAI_provider [OF assms] by (simp add: keyEnv_sel Let_def)
  show "fst (callAI keyEnv st t False) = Inl (JsError (S ''FetchError'') (S ''network unreachable''))"
    unfolding c using keyEnv_sel(2)
    by (simp add: callOpenAIGPT_def Let_def send_def settle_def keyEnv_sel(3))
  from callOpenAIGPT_sends [OF keyEnv_sel(2), of st t]
  show "\<exists>req. trace (snd (callAI keyEnv st t False)) = trace st @ [Fetch req]"
    unfolding c by blast
qed

lemma arrival_keyEnv_pair:
  assumes "userEntry v keyEnv st m = \<lparr>role = User, content = t\<rparr>"
    and "\<not> startsWith t (S ''/read '')" and "\<not> startsWith t (S ''/edit '')"
  shows "messageHistory (fst (occur v (st, pend) (UserMessage keyEnv m))) =
           messageHistory st @ [\<lparr>role = User, content = t\<rparr>, loadingEntry]"
    and "snd (occur v (st, pend) (UserMessage keyEnv m)) =
           pend @ [Inl (JsError (S ''FetchError'') (S ''network unreachable''))]"
    and "length (fetches (trace (fst (occur v (st, pend) (UserMessage keyEnv m))))) =
           Suc (length (fetches (trace st)))"
proof -
  show "messageHistory (fst (occur v (st, pend) (UserMessage keyEnv m))) =
           messageHistory st @ [\<lparr>role = User, content = t\<rparr>, loadingEntry]"
    by (simp add: occur_UserMessage_sel assms(1))
  show "snd (occur v (st, pend) (UserMessage keyEnv m)) =
           pend @ [Inl (JsError (S ''FetchError'') (S ''network unreachable''))]"
    unfolding occur_UserMessage_sel outcome_def assms(1)
    by (simp add: callAI_keyEnv(1) [OF assms(2,3)])
  from callAI_keyEnv(2) [OF assms(2,3), of "awaiting v keyEnv st m"]
  obtain req where "trace (snd (callAI keyEnv (awaiting v keyEnv st m) t False)) =
      trace (awaiting v keyEnv st m) @ [Fetch req]"
    by blast
  then show "length (fetches (trace (fst (occur v (st, pend) (UserMessage keyEnv m))))) =
           Suc (length (fetches (trace st)))"
    unfolding occur_UserMessage assms(1) by (simp add: fetches_awaiting)
qed

lemma arrival_keyEnv:
  assumes "\<And>st. userEntry v keyEnv st m = \<lparr>role = User, content = t\<rparr>"
    and "\<not> startsWith t (S ''/read '')" and "\<not> startsWith t (S ''/edit '')"
  shows "messageHistory (fst (occur v c (UserMessage keyEnv m))) =
           messageHistory (fst c) @ [\<lparr>role = User, content = t\<rparr>, loadingEntry]"
    and "snd (occur v c (UserMessage keyEnv m)) =
           snd c @ [Inl (JsError (S ''FetchError'') (S ''network unreachable''))]"
    and "length (fetches (trace (fst (occur v c (UserMessage keyEnv m))))) =
           Suc (length (fetches (trace (fst c))))"
  using arrival_keyEnv_pair [OF assms(1) assms(2,3), of "fst c" "snd c"]
  by simp_all

lemma twoArrivals_run:
  "messageHistory (fst (run Part000 (stateWith Map.empty, []) twoArrivals)) =
     [\<lparr>role = User, content = S ''A''\<rparr>, loadingEntry, \<lparr>role = User, content = S ''B''\<rparr>, loadingEntry]"
  "snd (run Part000 (stateWith Map.empty, []) twoArrivals) =
     [Inl (JsError (S ''FetchError'') (S ''network unreachable'')),
      Inl (JsError (S ''FetchError'') (S ''network unreachable''))]"
  "length (fetches (trace (fst (run Part000 (stateWith Map.empty, []) twoArrivals)))) = 2"
proof -
  let ?c0 = "(stateWith Map.empty, []) :: controller"
  let ?c1 = "occur Part000 ?c0 (UserMessage keyEnv (plainMessage (S ''A'')))"
  let ?c2 = "occur Part000 (fst ?c1, snd ?c1) (UserMessage keyEnv (plainMessage (S ''B'')))"
  have r: "run Part000 ?c0 twoArrivals = ?c2"
    by (simp add: twoArrivals_def)
  have st: "messageHistory (stateWith Map.empty) = []" "trace (stateWith Map.empty) = []"
    by (simp_all add: stateWith_def)
  note a = arrival_keyEnv [OF userEntry_AB(1) ab_plain(1) ab_plain(2)]
  note b = arrival_keyEnv [OF userEntry_AB(2) ab_plain(6) ab_plain(7)]
  show "messageHistory (fst (run Part000 ?c0 twoArrivals)) =
     [\<lparr>role = User, content = S ''A''\<rparr>, loadingEntry, \<lparr>role = User, content = S ''B''\<rparr>, loadingEntry]"
    by (simp add: r b(1) a(1) st)
  show "snd (run Part000 ?c0 twoArrivals) =
     [Inl (JsError (S ''FetchError'') (S ''network unreachable'')),
      Inl (JsError (S ''FetchError'') (S ''network unreachable''))]"
    by (simp add: r b(2) a(2))
  show "length (fetches (trace (fst (run Part000 ?c0 twoArrivals)))) = 2"
    by (simp add: r b(3) a(3) st)
qed


lemma run_append: "run v c (xs @ ys) = run v (run v c xs) ys"
  by (induction xs arbitrary: c) simp_all

lemma occur_CallSettles:
  assumes "i < length (snd c)"
  shows "messageHistory (fst (occur v c (CallSettles i))) =
           filter (\<lambda>x. role x \<noteq> Loading) (messageHistory (fst c)) @ [terminalEntry (snd c ! i)]"
    and "snd (occur v c (CallSettles i)) = take i (snd c) @ drop (Suc i) (snd c)"
  using assms by (cases c, simp add: settleTurn_sel)+

lemma twoArrivals_settled:
  "messageHistory (fst (run Part000 (stateWith Map.empty, []) (twoArrivals @ [CallSettles 0, CallSettles 0]))) =
     [\<lparr>role = User, content = S ''A''\<rparr>, \<lparr>role = User, content = S ''B''\<rparr>,
      \<lparr>role = Err, content = S ''Error: network unreachable''\<rparr>,
      \<lparr>role = Err, content = S ''Error: network unreachable''\<rparr>]"
  "snd (run Part000 (stateWith Map.empty, []) (twoArrivals @ [CallSettles 0, CallSettles 0])) = []"
proof -
  let ?c2 = "run Part000 (stateWith Map.empty, []) twoArrivals"
  let ?c3 = "occur Part000 ?c2 (CallSettles 0)"
  have r: "run Part000 (stateWith Map.empty, []) (twoArrivals @ [CallSettles 0, CallSettles 0]) =
      occur Part000 ?c3 (CallSettles 0)"
    by (simp add: run_append)
  have t: "terminalEntry (Inl (JsError (S ''FetchError'') (S ''network unreachable''))) =
      \<lparr>role = Err, content = S ''Error: network unreachable''\<rparr>"
    by (simp add: terminalEntry_def S_append)
  have l2: "0 < length (snd ?c2)" by (simp add: twoArrivals_run(2))
  have h3: "messageHistory (fst ?c3) =
      [\<lparr>role = User, content = S ''A''\<rparr>, \<lparr>role = User, content = S ''B''\<rparr>,
       \<lparr>role = Err, content = S ''Error: network unreachable''\<rparr>]"
    unfolding occur_CallSettles(1) [OF l2] twoArrivals_run
    by (simp add: t loadingEntry_def)
  have p3: "snd ?c3 = [Inl (JsError (S ''FetchError'') (S ''network unreachable''))]"
    unfolding occur_CallSettles(2) [OF l2] twoArrivals_run by simp
  have l3: "0 < length (snd ?c3)" by (simp add: p3)
  show "messageHistory (fst (run Part000 (stateWith Map.empty, []) (twoArrivals @ [CallSettles 0, CallSettles 0]))) =
     [\<lparr>role = User, content = S ''A''\<rparr>, \<lparr>role = User, content = S ''B''\<rparr>,
      \<lparr>role = Err, content = S ''Error: network unreachable''\<rparr>,
      \<lparr>role = Err, content = S ''Error: network unreachable''\<rparr>]"
    unfolding r occur_CallSettles(1) [OF l3] h3 p3
    by (simp add: t)
  show "snd (run Part000 (stateWith Map.empty, []) (twoArrivals @ [CallSettles 0, CallSettles 0])) = []"
    unfolding r occur_CallSettles(2) [OF l3] p3 by simp
qed

section \<open>The loading placeholder\<close>

text \<open>
  C1, as amended. Turns may overlap: nothing keeps a \<open>userMessage\<close> from being handled
  while the provider call of an earlier turn is outstanding. Under every interleaving of
  arriving messages and settling calls, from a history without two adjacent \<open>loading\<close>
  entries, the history never has two adjacent \<open>loading\<close> entries, and never more
  \<open>loading\<close> entries than calls outstanding. A turn appends its \<open>user\<close> entry and its
  \<open>loading\<close> entry in one segment; when its call settles, on success and on failure
  alike, it removes every \<open>loading\<close> entry then in the history and appends exactly one
  terminal entry of role \<open>ai\<close> or \<open>error\<close>. A turn during which nothing else is handled is
  the arrival followed at once by the settling: its \<open>loading\<close> entry is replaced by its
  terminal entry, and the history it leaves has no \<open>loading\<close> entry.
\<close>

theorem overlapping_turns_loading:
  assumes "noAdjacentLoading (messageHistory st)"
    and "list_all noAdjacentLoading (historyStates (trace st))"
    and "loadingCount (messageHistory st) \<le> length outstanding"
  shows "noAdjacentLoading (messageHistory (fst (run v (st, outstanding) xs)))
     \<and> list_all noAdjacentLoading (historyStates (trace (fst (run v (st, outstanding) xs))))
     \<and> loadingCount (messageHistory (fst (run v (st, outstanding) xs)))
           \<le> length (snd (run v (st, outstanding) xs))
     \<and> (\<exists>u. role u = User
           \<and> messageHistory (fst (occur v (st, outstanding) (UserMessage env m))) =
               messageHistory st @ [u, \<lparr>role = Loading, content = S ''Thinking...''\<rparr>]
           \<and> length (snd (occur v (st, outstanding) (UserMessage env m))) = Suc (length outstanding))
     \<and> (\<exists>t. (role t = Ai \<or> role t = Err)
           \<and> messageHistory (settleTurn st r) =
               filter (\<lambda>x. role x \<noteq> Loading) (messageHistory st) @ [t])
     \<and> run v (st, []) [UserMessage env m, CallSettles 0] = (handleUserMessage v env st m, [])
     \<and> (\<exists>u t. role u = User \<and> (role t = Ai \<or> role t = Err)
           \<and> messageHistory (handleUserMessage v env st m) =
               filter (\<lambda>x. role x \<noteq> Loading) (messageHistory st) @ [u, t]
           \<and> loadingCount (messageHistory (handleUserMessage v env st m)) = 0)"
proof -
  have "steady (st, outstanding)"
    using assms by (simp add: steady_def)
  then have s: "steady (run v (st, outstanding) xs)"
    by (rule steady_run)
  have 1: "noAdjacentLoading (messageHistory (fst (run v (st, outstanding) xs)))"
    and 2: "list_all noAdjacentLoading (historyStates (trace (fst (run v (st, outstanding) xs))))"
    and 3: "loadingCount (messageHistory (fst (run v (st, outstanding) xs)))
           \<le> length (snd (run v (st, outstanding) xs))"
    using s by (simp_all add: steady_def)
  have 4: "\<exists>u. role u = User
           \<and> messageHistory (fst (occur v (st, outstanding) (UserMessage env m))) =
               messageHistory st @ [u, \<lparr>role = Loading, content = S ''Thinking...''\<rparr>]
           \<and> length (snd (occur v (st, outstanding) (UserMessage env m))) = Suc (length outstanding)"
    by (rule exI [of _ "userEntry v env st m"])
       (simp add: occur_UserMessage_sel loadingEntry_def)
  have 5: "\<exists>t. (role t = Ai \<or> role t = Err)
           \<and> messageHistory (settleTurn st r) =
               filter (\<lambda>x. role x \<noteq> Loading) (messageHistory st) @ [t]"
    by (rule exI [of _ "terminalEntry r"]) (simp add: settleTurn_sel role_terminalEntry)
  have 6: "run v (st, []) [UserMessage env m, CallSettles 0] = (handleUserMessage v env st m, [])"
    by (rule uninterrupted_turn)
  have 7: "\<exists>u t. role u = User \<and> (role t = Ai \<or> role t = Err)
           \<and> messageHistory (handleUserMessage v env st m) =
               filter (\<lambda>x. role x \<noteq> Loading) (messageHistory st) @ [u, t]
           \<and> loadingCount (messageHistory (handleUserMessage v env st m)) = 0"
    by (rule exI [of _ "userEntry v env st m"], rule exI [of _ "terminalEntry (outcome v env st m)"])
       (simp add: handleUserMessage_history role_terminalEntry loadingCount_def)
  from 1 2 3 4 5 6 7 show ?thesis by (intro conjI)
qed

theorem overlapping_turns_loading_witness:
  "noAdjacentLoading (messageHistory (stateWith Map.empty))
   \<and> list_all noAdjacentLoading (historyStates (trace (stateWith Map.empty)))
   \<and> loadingCount (messageHistory (stateWith Map.empty)) \<le> length ([] :: (js_error + jsstring) list)
   \<and> noAdjacentLoading
        (messageHistory (fst (run Part000 (stateWith Map.empty, [])
           (twoArrivals @ [CallSettles 0, CallSettles 0]))))
   \<and> loadingCount
        (messageHistory (fst (run Part000 (stateWith Map.empty, [])
           (twoArrivals @ [CallSettles 0, CallSettles 0]))))
       \<le> length (snd (run Part000 (stateWith Map.empty, []) (twoArrivals @ [CallSettles 0, CallSettles 0])))
   \<and> messageHistory (fst (run Part000 (stateWith Map.empty, [])
         (twoArrivals @ [CallSettles 0, CallSettles 0]))) =
       [\<lparr>role = User, content = S ''A''\<rparr>, \<lparr>role = User, content = S ''B''\<rparr>,
        \<lparr>role = Err, content = S ''Error: network unreachable''\<rparr>,
        \<lparr>role = Err, content = S ''Error: network unreachable''\<rparr>]
   \<and> snd (run Part000 (stateWith Map.empty, []) (twoArrivals @ [CallSettles 0, CallSettles 0])) = []"
proof -
  have h1: "noAdjacentLoading (messageHistory (stateWith Map.empty))"
    and h2: "list_all noAdjacentLoading (historyStates (trace (stateWith Map.empty)))"
    and h3: "loadingCount (messageHistory (stateWith Map.empty)) \<le> length ([] :: (js_error + jsstring) list)"
    by (simp_all add: stateWith_def)
  from overlapping_turns_loading [OF h1 h2 h3, of Part000 "twoArrivals @ [CallSettles 0, CallSettles 0]"]
  have a: "noAdjacentLoading
        (messageHistory (fst (run Part000 (stateWith Map.empty, [])
           (twoArrivals @ [CallSettles 0, CallSettles 0]))))"
    and b: "loadingCount
        (messageHistory (fst (run Part000 (stateWith Map.empty, [])
           (twoArrivals @ [CallSettles 0, CallSettles 0]))))
       \<le> length (snd (run Part000 (stateWith Map.empty, []) (twoArrivals @ [CallSettles 0, CallSettles 0])))"
    by blast+
  from h1 h2 h3 a b twoArrivals_settled show ?thesis by (intro conjI)
qed

text \<open>
  Nothing keeps a second \<open>userMessage\<close> from being handled while the call of the first
  is outstanding: both requests are on their way, and the second \<open>loading\<close> entry is
  appended while the first is still in the history.
\<close>

theorem second_loading_counterexample:
  "messageHistory (fst (run Part000 (stateWith Map.empty, []) twoArrivals)) =
     [\<lparr>role = User, content = S ''A''\<rparr>, \<lparr>role = Loading, content = S ''Thinking...''\<rparr>,
      \<lparr>role = User, content = S ''B''\<rparr>, \<lparr>role = Loading, content = S ''Thinking...''\<rparr>]
   \<and> length (snd (run Part000 (stateWith Map.empty, []) twoArrivals)) = 2
   \<and> length (fetches (trace (fst (run Part000 (stateWith Map.empty, []) twoArrivals)))) = 2
   \<and> loadingCount (messageHistory (fst (run Part000 (stateWith Map.empty, []) twoArrivals))) = 2"
  unfolding twoArrivals_run
  by (simp add: loadingEntry_def loadingCount_def)


text \<open>
  The turn during which nothing else is handled, value by value: with the \<open>user\<close> entry
  appended, with the \<open>loading\<close> entry appended after it, with every \<open>loading\<close> entry
  removed, and with the terminal entry appended.
\<close>

lemma uninterrupted_turn_history:
  assumes "noAdjacentLoading (messageHistory st)"
  shows "\<exists>u t. role u = User \<and> (role t = Ai \<or> role t = Err)
     \<and> historyStates (trace (handleUserMessage v env st m)) =
         historyStates (trace st)
           @ [messageHistory st @ [u],
              messageHistory st @ [u, \<lparr>role = Loading, content = S ''Thinking...''\<rparr>],
              filter (\<lambda>x. role x \<noteq> Loading) (messageHistory st) @ [u],
              filter (\<lambda>x. role x \<noteq> Loading) (messageHistory st) @ [u, t]]
     \<and> messageHistory (handleUserMessage v env st m) =
         filter (\<lambda>x. role x \<noteq> Loading) (messageHistory st) @ [u, t]
     \<and> (\<forall>h \<in> set [messageHistory st @ [u],
              messageHistory st @ [u, \<lparr>role = Loading, content = S ''Thinking...''\<rparr>],
              filter (\<lambda>x. role x \<noteq> Loading) (messageHistory st) @ [u],
              filter (\<lambda>x. role x \<noteq> Loading) (messageHistory st) @ [u, t]]. noAdjacentLoading h)
     \<and> (\<forall>x \<in> set (messageHistory (handleUserMessage v env st m)). role x \<noteq> Loading)"
proof -
  let ?u = "userEntry v env st m"
  let ?t = "terminalEntry (outcome v env st m)"
  let ?H = "messageHistory st"
  let ?F = "filter (\<lambda>x. role x \<noteq> Loading) ?H"
  have u: "role ?u = User" by simp
  have t: "role ?t = Ai \<or> role ?t = Err" by (rule role_terminalEntry)
  have n1: "noAdjacentLoading (?H @ [?u])"
    using assms by (simp add: noAdjacentLoading_snoc)
  have n2: "noAdjacentLoading (?H @ [?u, \<lparr>role = Loading, content = S ''Thinking...''\<rparr>])"
    using n1 by (simp add: noAdjacentLoading_snoc2)
  have n3: "noAdjacentLoading (?F @ [?u])"
    by (rule noAdjacentLoading_none) simp
  have n4: "noAdjacentLoading (?F @ [?u, ?t])"
    by (rule noAdjacentLoading_none) simp
  have fin: "\<forall>x \<in> set (messageHistory (handleUserMessage v env st m)). role x \<noteq> Loading"
    by (simp add: handleUserMessage_history)
  have hs: "historyStates (trace (handleUserMessage v env st m)) =
         historyStates (trace st)
           @ [?H @ [?u], ?H @ [?u, \<lparr>role = Loading, content = S ''Thinking...''\<rparr>],
              ?F @ [?u], ?F @ [?u, ?t]]"
    by (simp only: handleUserMessage_historyStates loadingEntry_def)
  have mh: "messageHistory (handleUserMessage v env st m) = ?F @ [?u, ?t]"
    by (rule handleUserMessage_history)
  have all: "\<forall>h \<in> set [?H @ [?u], ?H @ [?u, \<lparr>role = Loading, content = S ''Thinking...''\<rparr>],
              ?F @ [?u], ?F @ [?u, ?t]]. noAdjacentLoading h"
    using n1 n2 n3 n4 by (simp only: list.set ball_simps insert_iff empty_iff)
  from u t hs mh all fin show ?thesis by blast
qed

lemma uninterrupted_turn_example:
  "noAdjacentLoading (messageHistory (stateWith Map.empty))
   \<and> messageHistory (handleUserMessage Part000 emptyEnv (stateWith Map.empty) (plainMessage (S ''hi''))) =
       [\<lparr>role = User, content = S ''hi''\<rparr>,
        \<lparr>role = Err, content = S ''Error: No OpenAI API key set. Please add it in the extension settings.''\<rparr>]
   \<and> filter (\<lambda>x. role x = Loading)
         (messageHistory (handleUserMessage Part000 emptyEnv (stateWith Map.empty) (plainMessage (S ''hi'')))) = []"
proof -
  have h: "noAdjacentLoading (messageHistory (stateWith Map.empty))"
    by (simp add: stateWith_def)
  have nm: "\<not> includes_str (S ''hi'') (S ''[selection]'')" "\<not> includes_str (S ''hi'') (S ''[file]'')"
    "\<not> includes_str (S ''hi'') (S ''[workspace]'')"
    by (simp_all add: includes_str_def S_def startsWith_def)
  have ue: "userEntry Part000 emptyEnv (stateWith Map.empty) (plainMessage (S ''hi'')) =
      \<lparr>role = User, content = S ''hi''\<rparr>"
    by (simp add: userEntry_def resolveReferences_def resolveSelectionMarker_def
          resolveFileMarker_def resolveWorkspaceMarker_def plainMessage_def nm finalMessage_def)
  have nc: "\<not> startsWith (S ''hi'') (S ''/read '')" "\<not> startsWith (S ''hi'') (S ''/edit '')"
    by (simp_all add: S_def startsWith_def)
  have oc: "outcome Part000 emptyEnv (stateWith Map.empty) (plainMessage (S ''hi'')) =
      Inl (JsError (S ''Error'') (S ''No OpenAI API key set. Please add it in the extension settings.''))"
    unfolding outcome_def ue
    by (simp add: callAI_def nc emptyEnv_def configGet_def callOpenAIGPT_def)
  have e: "messageHistory (handleUserMessage Part000 emptyEnv (stateWith Map.empty) (plainMessage (S ''hi''))) =
       [\<lparr>role = User, content = S ''hi''\<rparr>,
        \<lparr>role = Err, content = S ''Error: No OpenAI API key set. Please add it in the extension settings.''\<rparr>]"
    unfolding handleUserMessage_history ue oc
    by (simp add: terminalEntry_def stateWith_def S_append)
  from uninterrupted_turn_history [OF h, of Part000 emptyEnv "plainMessage (S ''hi'')"]
  have "\<forall>x \<in> set (messageHistory (handleUserMessage Part000 emptyEnv (stateWith Map.empty) (plainMessage (S ''hi'')))).
         role x \<noteq> Loading"
    by (elim exE conjE)
  then have c: "filter (\<lambda>x. role x = Loading)
         (messageHistory (handleUserMessage Part000 emptyEnv (stateWith Map.empty) (plainMessage (S ''hi'')))) = []"
    by (simp only: filter_empty_conv)
  from h e c show ?thesis by (intro conjI)
qed

text \<open>The same for any sequence of turns, each completed before the next starts.\<close>

lemma userTurns_no_adjacent_loading:
  assumes "noAdjacentLoading (messageHistory st)"
    and "\<forall>h \<in> set (historyStates (trace st)). noAdjacentLoading h"
  shows "noAdjacentLoading (messageHistory (userTurns v st turns))
     \<and> (\<forall>h \<in> set (historyStates (trace (userTurns v st turns))). noAdjacentLoading h)"
  using assms
proof (induction turns arbitrary: st)
  case Nil
  then show ?case by simp
next
  case (Cons turn turns)
  obtain env m where turn: "turn = (env, m)" by (cases turn)
  let ?st = "handleUserMessage v env st m"
  let ?u = "userEntry v env st m"
  have n1: "noAdjacentLoading (messageHistory st @ [?u])"
    using Cons.prems(1) by (simp add: noAdjacentLoading_snoc)
  have n2: "noAdjacentLoading (messageHistory st @ [?u, loadingEntry])"
    using n1 by (simp add: noAdjacentLoading_snoc2)
  have a: "noAdjacentLoading (messageHistory ?st)"
    by (rule noAdjacentLoading_none) (simp add: handleUserMessage_history)
  have n3: "noAdjacentLoading (filter (\<lambda>x. role x \<noteq> Loading) (messageHistory st) @ [?u])"
    by (rule noAdjacentLoading_none) simp
  have b: "\<forall>h \<in> set (historyStates (trace ?st)). noAdjacentLoading h"
    using Cons.prems(2) n1 n2 n3 a
    by (simp add: handleUserMessage_historyStates handleUserMessage_history)
  show ?case
    using Cons.IH [OF a b] turn by simp
qed

section \<open>Path scoping of \<open>/read\<close> and \<open>/edit\<close>\<close>

text \<open>
  C2: a path given to \<open>/read\<close> or \<open>/edit\<close> which, resolved against the first workspace
  root, does not stay within that root is to be refused with a scoping error, and no file
  read or written. The controller tests \<open>absPath.startsWith(root)\<close>, a comparison of strings: with
  the root \<open>/ws\<close>, the argument \<open>../ws2/secret.txt\<close> resolves to \<open>/ws2/secret.txt\<close>, which is
  outside \<open>/ws\<close> and starts with \<open>/ws\<close>. The theorem evaluates the dispatcher there:
  \<open>/read\<close> reads the file and returns its content, \<open>/edit\<close> writes the file.
\<close>

theorem scoping_check_is_a_prefix_test:
  "pathResolve (cwd wsEnv) [S ''/ws'', S ''../ws2/secret.txt''] = S ''/ws2/secret.txt''
   \<and> \<not> withinRoot (S ''/ws'') (S ''/ws2/secret.txt'')
   \<and> fst (callAI wsEnv (stateWith [S ''/ws2/secret.txt'' \<mapsto> S ''top secret''])
             (S ''/read ../ws2/secret.txt'') False) = Inr (S ''```\<newline>top secret\<newline>```'')
   \<and> trace (snd (callAI wsEnv (stateWith [S ''/ws2/secret.txt'' \<mapsto> S ''top secret''])
                    (S ''/read ../ws2/secret.txt'') False)) = [FsRead (S ''/ws2/secret.txt'')]
   \<and> pathResolve (cwd wsEnv) [S ''/ws'', S ''../ws2/x.txt''] = S ''/ws2/x.txt''
   \<and> \<not> withinRoot (S ''/ws'') (S ''/ws2/x.txt'')
   \<and> fst (callAI wsEnv (stateWith Map.empty) (S ''/edit ../ws2/x.txt pwned'') False)
        = Inr (S ''File ../ws2/x.txt updated successfully.'')
   \<and> files (snd (callAI wsEnv (stateWith Map.empty) (S ''/edit ../ws2/x.txt pwned'') False))
         (S ''/ws2/x.txt'') = Some (S ''pwned'')"
proof -
  have w: "\<not> withinRoot (S ''/ws'') (S ''/ws2/secret.txt'')" "\<not> withinRoot (S ''/ws'') (S ''/ws2/x.txt'')"
    by (simp_all add: withinRoot_def startsWith_def S_def)
  have p: "startsWith (S ''/ws2/secret.txt'') (S ''/ws'')" "startsWith (S ''/ws2/x.txt'') (S ''/ws'')"
    by (simp_all add: startsWith_def S_def)
  have len: "\<not> length (S ''top secret'') > 4000" by (simp add: S_def)
  have r: "handleReadFile wsEnv (stateWith [S ''/ws2/secret.txt'' \<mapsto> S ''top secret'']) (S ''../ws2/secret.txt'')
      = (S ''```\<newline>top secret\<newline>```'',
         (stateWith [S ''/ws2/secret.txt'' \<mapsto> S ''top secret''])\<lparr>trace := [FsRead (S ''/ws2/secret.txt'')]\<rparr>)"
    by (simp add: handleReadFile_def Let_def wsEnv_sel resolve_escape p readFile_def stateWith_def len S_append)
  have e: "handleEditFile wsEnv (stateWith Map.empty) (S ''../ws2/x.txt'') (S ''pwned'')
      = (S ''File ../ws2/x.txt updated successfully.'',
         (stateWith Map.empty)\<lparr>files := [S ''/ws2/x.txt'' \<mapsto> S ''pwned''], trace := [FsWrite (S ''/ws2/x.txt'') (S ''pwned'')]\<rparr>)"
    by (simp add: handleEditFile_def Let_def wsEnv_sel resolve_escape_edit p writeFile_def stateWith_def S_append)
  show ?thesis
    by (simp add: callAI_def read_cmd edit_cmd r e w wsEnv_sel resolve_escape resolve_escape_edit)
qed


text \<open>
  What the check does: a resolved path that does not start with the root is refused
  before any file access, and a path within the root is never refused.
\<close>

lemma handleReadFile_refused:
  assumes "workspaceFolders env = wsf # rest"
    and "\<not> startsWith (pathResolve (cwd env) [fsPath wsf, p]) (fsPath wsf)"
  shows "handleReadFile env st p = (S ''Error: Can only read files within the workspace.'', st)"
  using assms by (simp add: handleReadFile_def Let_def)

lemma handleEditFile_refused:
  assumes "workspaceFolders env = wsf # rest"
    and "\<not> startsWith (pathResolve (cwd env) [fsPath wsf, p]) (fsPath wsf)"
  shows "handleEditFile env st p c = (S ''Error: Can only edit files within the workspace.'', st)"
  using assms by (simp add: handleEditFile_def Let_def)

lemma handleReadFile_within_root:
  assumes "workspaceFolders env = wsf # rest"
    and "withinRoot (fsPath wsf) (pathResolve (cwd env) [fsPath wsf, p])"
  shows "fst (handleReadFile env st p) \<noteq> S ''Error: Can only read files within the workspace.''"
  using assms withinRoot_startsWith [OF assms(2)]
  by (simp add: handleReadFile_def Let_def readFile_def S_def split: option.splits)

lemma handleEditFile_within_root:
  assumes "workspaceFolders env = wsf # rest"
    and "withinRoot (fsPath wsf) (pathResolve (cwd env) [fsPath wsf, p])"
  shows "fst (handleEditFile env st p c) \<noteq> S ''Error: Can only edit files within the workspace.''"
  using assms withinRoot_startsWith [OF assms(2)]
  by (simp add: handleEditFile_def Let_def writeFile_def S_def split: option.splits)

lemma read_outside_example:
  "handleReadFile wsEnv st (S ''../outside.txt'') =
     (S ''Error: Can only read files within the workspace.'', st)"
proof -
  have "\<not> startsWith (S ''/outside.txt'') (S ''/ws'')"
    by (simp add: startsWith_def S_def)
  then show ?thesis
    by (simp add: handleReadFile_def Let_def wsEnv_sel resolve_outside)
qed

section \<open>Markers without a source\<close>

text \<open>
  C3, as amended. In the controller of \<open>unnamed/part_000\<close>, when the text contains
  \<open>[selection]\<close> and no selection is resolvable, the first occurrence of the marker is
  replaced by the notice \<open>**No selection found** - ...\<close> in the display copy; the
  controller of \<open>src/extension.ts\<close> leaves the marker as it is. An unresolvable \<open>[file]\<close>
  or \<open>[workspace]\<close> marker is left in place in both, and no text is inserted. The display
  copy is what the turn stores when no context item at all was resolved for the message:
  then the stored \<open>user\<close> entry is the text with the notice in the marker's place.
\<close>

theorem unresolvable_markers:
  "(includes_str t (S ''[selection]'') \<and> getCurrentSelection env = None \<longrightarrow>
      (\<exists>i. indexOf t (S ''[selection]'') = Some i
         \<and> resolveSelectionMarker Part000 env (t, refs) =
             (take i t @ noSelectionFound @ drop (i + 11) t, refs))
      \<and> resolveSelectionMarker SrcExtension env (t, refs) = (t, refs))
   \<and> (getCurrentFile env = None \<longrightarrow> resolveFileMarker env (t, refs) = (t, refs))
   \<and> (getWorkspaceInfo env = None \<longrightarrow> resolveWorkspaceMarker env (t, refs) = (t, refs))
   \<and> (includes_str (msgText m) (S ''[selection]'') \<and> getCurrentSelection env = None
        \<and> snd (fst (resolveReferences Part000 env st m)) = [] \<longrightarrow>
      (\<exists>i u. indexOf (msgText m) (S ''[selection]'') = Some i
         \<and> messageHistory (handleUserMessage Part000 env st m) =
             filter (\<lambda>x. role x \<noteq> Loading) (messageHistory st)
               @ [\<lparr>role = User,
                   content = take i (msgText m) @ noSelectionFound @ drop (i + 11) (msgText m)\<rparr>,
                  u]))"
proof (intro conjI impI)
  assume a: "includes_str t (S ''[selection]'') \<and> getCurrentSelection env = None"
  then obtain i where i: "indexOf t (S ''[selection]'') = Some i"
    using includes_indexOf by blast
  have "resolveSelectionMarker Part000 env (t, refs) =
      (take i t @ noSelectionFound @ drop (i + 11) t, refs)"
    using a replace_plain [OF i noSelectionFound_plain]
    by (simp add: resolveSelectionMarker_def marker_length)
  with i show "\<exists>i. indexOf t (S ''[selection]'') = Some i
         \<and> resolveSelectionMarker Part000 env (t, refs) =
             (take i t @ noSelectionFound @ drop (i + 11) t, refs)"
    by blast
  show "resolveSelectionMarker SrcExtension env (t, refs) = (t, refs)"
    using a by (simp add: resolveSelectionMarker_def)
next
  assume "getCurrentFile env = None"
  then show "resolveFileMarker env (t, refs) = (t, refs)"
    by (simp add: resolveFileMarker_def)
next
  assume "getWorkspaceInfo env = None"
  then show "resolveWorkspaceMarker env (t, refs) = (t, refs)"
    by (simp add: resolveWorkspaceMarker_def)
next
  assume a: "includes_str (msgText m) (S ''[selection]'') \<and> getCurrentSelection env = None
        \<and> snd (fst (resolveReferences Part000 env st m)) = []"
  then obtain i where i: "indexOf (msgText m) (S ''[selection]'') = Some i"
    using includes_indexOf by blast
  have sel: "resolveSelectionMarker Part000 env (msgText m, []) =
      (take i (msgText m) @ noSelectionFound @ drop (i + 11) (msgText m), [])"
    using a replace_plain [OF i noSelectionFound_plain]
    by (simp add: resolveSelectionMarker_def marker_length)
  have none: "snd (fst (resolveReferences Part000 env st m)) = []"
    using a by simp
  have "fst (fst (resolveReferences Part000 env st m)) =
      take i (msgText m) @ noSelectionFound @ drop (i + 11) (msgText m)"
    using resolveReferences_none(1) [OF none] sel by simp
  with none have "userEntry Part000 env st m =
      \<lparr>role = User, content = take i (msgText m) @ noSelectionFound @ drop (i + 11) (msgText m)\<rparr>"
    by (simp add: userEntry_def split_beta finalMessage_def)
  with i show "\<exists>i u. indexOf (msgText m) (S ''[selection]'') = Some i
         \<and> messageHistory (handleUserMessage Part000 env st m) =
             filter (\<lambda>x. role x \<noteq> Loading) (messageHistory st)
               @ [\<lparr>role = User,
                   content = take i (msgText m) @ noSelectionFound @ drop (i + 11) (msgText m)\<rparr>,
                  u]"
    using handleUserMessage_history [of Part000 env st m] by auto
qed

theorem unresolvable_markers_witness:
  "includes_str (msgText (plainMessage (S ''fix [selection]''))) (S ''[selection]'')
   \<and> getCurrentSelection emptyEnv = None
   \<and> getCurrentFile emptyEnv = None
   \<and> getWorkspaceInfo emptyEnv = None
   \<and> snd (fst (resolveReferences Part000 emptyEnv (stateWith Map.empty) (plainMessage (S ''fix [selection]'')))) = []
   \<and> content (hd (messageHistory
        (handleUserMessage Part000 emptyEnv (stateWith Map.empty) (plainMessage (S ''fix [selection]'')))))
      = S ''fix '' @ noSelectionFound
   \<and> resolveFileMarker emptyEnv (S ''see [file]'', []) = (S ''see [file]'', [])
   \<and> resolveWorkspaceMarker emptyEnv (S ''see [workspace]'', []) = (S ''see [workspace]'', [])"
proof -
  let ?m = "plainMessage (S ''fix [selection]'')"
  let ?st = "stateWith Map.empty"
  have t: "msgText ?m = S ''fix [selection]''" by (simp add: plainMessage_def)
  have inc: "includes_str (msgText ?m) (S ''[selection]'')"
    unfolding t by (rule fix_selection_marker)
  have none: "snd (fst (resolveReferences Part000 emptyEnv ?st ?m)) = []"
    by (simp add: resolveReferences_def resolveSelectionMarker_def resolveFileMarker_def
          resolveWorkspaceMarker_def plainMessage_def emptyEnv_unresolvable split_beta)
  note inst = unresolvable_markers [of _ emptyEnv _ ?m ?st]
  from inst inc emptyEnv_unresolvable(1) none
  obtain i u where i: "indexOf (msgText ?m) (S ''[selection]'') = Some i"
    and h: "messageHistory (handleUserMessage Part000 emptyEnv ?st ?m) =
             filter (\<lambda>x. role x \<noteq> Loading) (messageHistory ?st)
               @ [\<lparr>role = User,
                   content = take i (msgText ?m) @ noSelectionFound @ drop (i + 11) (msgText ?m)\<rparr>,
                  u]"
    by blast
  from i have i4: "i = 4" unfolding t by (simp add: fix_selection_marker)
  have st: "messageHistory ?st = []" by (simp add: stateWith_def)
  have c: "content (hd (messageHistory (handleUserMessage Part000 emptyEnv ?st ?m)))
      = S ''fix '' @ noSelectionFound"
    unfolding h i4 t st by (simp add: S_def)
  from unresolvable_markers [of "S ''see [file]''" emptyEnv "[]" ?m ?st] emptyEnv_unresolvable(2)
  have f: "resolveFileMarker emptyEnv (S ''see [file]'', []) = (S ''see [file]'', [])"
    by blast
  from unresolvable_markers [of "S ''see [workspace]''" emptyEnv "[]" ?m ?st] emptyEnv_unresolvable(3)
  have w: "resolveWorkspaceMarker emptyEnv (S ''see [workspace]'', []) = (S ''see [workspace]'', [])"
    by blast
  from inc emptyEnv_unresolvable none c f w show ?thesis by (intro conjI)
qed


text \<open>
  Without the condition that nothing was resolved the statement fails: the stored
  entry is then the template around the text as received, and the notice is gone. Here
  \<open>fix [selection]\<close> is sent with a selection bubble while no editor is open.
\<close>

theorem selection_notice_counterexample:
  "includes_str (msgText bubbleMessage) (S ''[selection]'')
   \<and> getCurrentSelection emptyEnv = None
   \<and> content (hd (messageHistory
         (handleUserMessage Part000 emptyEnv (stateWith Map.empty) bubbleMessage)))
       = S ''**Context:**\<newline>**'' @ iconMemo
           @ S '' demo.ts:3-3:**\<newline>```\<newline>x=1\<newline>```\<newline>\<newline>**Question:**\<newline>fix [selection]''
   \<and> \<not> includes_str
         (content (hd (messageHistory
            (handleUserMessage Part000 emptyEnv (stateWith Map.empty) bubbleMessage))))
         (S ''No selection found'')"
proof -
  let ?st = "stateWith Map.empty"
  have t: "msgText bubbleMessage = S ''fix [selection]''" by (simp add: bubbleMessage_def)
  have inc: "includes_str (msgText bubbleMessage) (S ''[selection]'')"
    unfolding t by (rule fix_selection_marker)
  have rp: "replace (S ''fix [selection]'') (S ''[selection]'') noSelectionFound = S ''fix '' @ noSelectionFound"
    using replace_plain [OF fix_selection_marker(2) noSelectionFound_plain]
    by (simp add: S_def)
  have sel: "resolveSelectionMarker Part000 emptyEnv (S ''fix [selection]'', []) =
      (S ''fix '' @ noSelectionFound, [])"
    by (simp add: resolveSelectionMarker_def fix_selection_marker emptyEnv_unresolvable rp)
  have r: "resolveReferences Part000 emptyEnv ?st bubbleMessage =
      ((S ''fix '' @ noSelectionFound,
        [\<lparr>ci_icon = iconMemo, ci_name = S ''demo.ts:3-3'', ci_content = S ''x=1'', ci_props = []\<rparr>]),
       ?st)"
    unfolding resolveReferences_def t sel
    by (simp add: resolveFileMarker_def resolveWorkspaceMarker_def emptyEnv_unresolvable
          bubbleMessage_def orDefault_def)
  have u: "userEntry Part000 emptyEnv ?st bubbleMessage =
      \<lparr>role = User,
       content = S ''**Context:**\<newline>**'' @ iconMemo
           @ S '' demo.ts:3-3:**\<newline>```\<newline>x=1\<newline>```\<newline>\<newline>**Question:**\<newline>fix [selection]''\<rparr>"
    unfolding userEntry_def r
    by (simp add: finalMessage_def contextBlock_def t S_def)
  have st: "messageHistory ?st = []" by (simp add: stateWith_def)
  have c: "content (hd (messageHistory (handleUserMessage Part000 emptyEnv ?st bubbleMessage)))
       = S ''**Context:**\<newline>**'' @ iconMemo
           @ S '' demo.ts:3-3:**\<newline>```\<newline>x=1\<newline>```\<newline>\<newline>**Question:**\<newline>fix [selection]''"
    unfolding handleUserMessage_history u st by simp
  have n: "\<not> includes_str
         (S ''**Context:**\<newline>**'' @ iconMemo
           @ S '' demo.ts:3-3:**\<newline>```\<newline>x=1\<newline>```\<newline>\<newline>**Question:**\<newline>fix [selection]'')
         (S ''No selection found'')"
    by (simp add: includes_str_def startsWith_def S_def iconMemo_def)
  from inc emptyEnv_unresolvable(1) c n show ?thesis
    unfolding c by (intro conjI)
qed

text \<open>The other copy of the controller, on the plain message: the marker stays.\<close>

lemma srcExtension_keeps_marker:
  "content (hd (messageHistory
      (handleUserMessage SrcExtension emptyEnv (stateWith Map.empty) (plainMessage (S ''fix [selection]'')))))
     = S ''fix [selection]''"
proof -
  have u: "userEntry SrcExtension emptyEnv (stateWith Map.empty) (plainMessage (S ''fix [selection]''))
      = \<lparr>role = User, content = S ''fix [selection]''\<rparr>"
    by (simp add: userEntry_def resolveReferences_def resolveSelectionMarker_def
          resolveFileMarker_def resolveWorkspaceMarker_def emptyEnv_unresolvable plainMessage_def
          finalMessage_def split_beta)
  show ?thesis
    unfolding handleUserMessage_history u by (simp add: stateWith_def)
qed

section \<open>The prompt template\<close>

text \<open>
  C4: when at least one context item was resolved for a \<open>userMessage\<close>, the \<open>user\<close> entry
  the turn stores in the history is the fixed template: the \<open>**Context:**\<close> section with
  each resolved item as a bolded icon-and-name label followed by a fenced block of its
  content, the items joined by blank lines, then the \<open>**Question:**\<close> section with the
  text of the message as received, not the copy in which the markers were substituted.
\<close>

theorem userTurn_prompt_template:
  assumes "resolveReferences v env st m = ((substituted, items), st1)"
    and "items \<noteq> []"
  shows "\<exists>t. messageHistory (handleUserMessage v env st m) =
           filter (\<lambda>x. role x \<noteq> Loading) (messageHistory st)
             @ [\<lparr>role = User, content = promptTemplate items (msgText m)\<rparr>, t]"
proof -
  have "userEntry v env st m = \<lparr>role = User, content = promptTemplate items (msgText m)\<rparr>"
    using assms by (simp add: userEntry_def finalMessage_template)
  then show ?thesis
    using handleUserMessage_history [of v env st m] by auto
qed


theorem userTurn_prompt_template_witness:
  "resolveReferences Part000 editorEnv (stateWith Map.empty) (plainMessage (S ''fix [selection]''))
     = ((S ''fix **'' @ iconMemo @ S '' demo.ts:3-3**'', [demoSelection]), stateWith Map.empty)
   \<and> [demoSelection] \<noteq> []
   \<and> (\<exists>t. messageHistory
              (handleUserMessage Part000 editorEnv (stateWith Map.empty)
                 (plainMessage (S ''fix [selection]''))) =
            [\<lparr>role = User,
              content =
                S ''**Context:**\<newline>**'' @ iconMemo
                  @ S '' demo.ts:3-3:**\<newline>```\<newline>x=1\<newline>```\<newline>\<newline>**Question:**\<newline>fix [selection]''\<rparr>,
             t])"
proof -
  have t: "promptTemplate [demoSelection] (msgText (plainMessage (S ''fix [selection]''))) =
      S ''**Context:**\<newline>**'' @ iconMemo
        @ S '' demo.ts:3-3:**\<newline>```\<newline>x=1\<newline>```\<newline>\<newline>**Question:**\<newline>fix [selection]''"
    by (simp add: promptTemplate_def fenced_def demoSelection_def plainMessage_def S_def)
  have h: "[demoSelection] \<noteq> []" by simp
  have m: "messageHistory (stateWith Map.empty) = []" by (simp add: stateWith_def)
  from userTurn_prompt_template [OF resolve_fix_selection h]
  have "\<exists>t. messageHistory
              (handleUserMessage Part000 editorEnv (stateWith Map.empty)
                 (plainMessage (S ''fix [selection]''))) =
            [\<lparr>role = User,
              content =
                S ''**Context:**\<newline>**'' @ iconMemo
                  @ S '' demo.ts:3-3:**\<newline>```\<newline>x=1\<newline>```\<newline>\<newline>**Question:**\<newline>fix [selection]''\<rparr>,
             t]"
    unfolding t m by simp
  with resolve_fix_selection h show ?thesis by (intro conjI)
qed

section \<open>Broadcasting after a mutation\<close>

text \<open>
  C5: after every mutation of the history, those of \<open>sendCurrentFile\<close>,
  \<open>sendSelection\<close>, \<open>sendWorkspaceInfo\<close>, \<open>applyInline\<close> and preview-apply included, the
  snapshot is to be pushed to every live surface. \<open>_handleUserMessage\<close> calls both
  \<open>_postMessageHistory\<close> and \<open>_postMessageHistoryToPanel\<close>; the other handlers call
  \<open>_postMessageHistory\<close> only, which posts to the side panel. The theorem evaluates
  \<open>sendCurrentFile\<close> with both surfaces live and no editor open: the history gets a
  \<open>system\<close> entry, the side panel gets the snapshot, the detachable panel gets nothing.
\<close>

theorem sendCurrentFile_leaves_panel_stale:
  "view (stateWith Map.empty) \<and> panel (stateWith Map.empty)
   \<and> messageHistory (handleSendCurrentFile emptyEnv (stateWith Map.empty)) =
        [\<lparr>role = System, content = S ''No file is currently open.''\<rparr>]
   \<and> trace (handleSendCurrentFile emptyEnv (stateWith Map.empty)) =
        [HistorySet [\<lparr>role = System, content = S ''No file is currently open.''\<rparr>],
         PostView [\<lparr>role = System, content = S ''No file is currently open.''\<rparr>]]"
  by (simp add: handleSendCurrentFile_def emptyEnv_def stateWith_def)

text \<open>
  The two broadcasters: the first reaches the side panel only, the pair used by the user
  turn reaches both surfaces, and neither fails on an absent surface.
\<close>

lemma postMessageHistory_view_only:
  "trace (postMessageHistory st) = trace st @ (if view st then [PostView (messageHistory st)] else [])"
  by simp

lemma broadcast_reaches_live_surfaces:
  "trace (broadcast st) =
     trace st @ (if view st then [PostView (messageHistory st)] else [])
       @ (if panel st then [PostPanel (messageHistory st)] else [])"
  by simp


text \<open>
  None of the three commands modelled here posts to the detachable panel, whatever the
  editor shows and whichever surfaces are live, although each of them appends an entry
  to the history (the preview when the user chooses \<open>Apply\<close>).
\<close>

lemma sendCurrentFile_never_posts_to_panel:
  "panelPosts (trace (handleSendCurrentFile env st)) = panelPosts (trace st)
   \<and> length (messageHistory (handleSendCurrentFile env st)) = Suc (length (messageHistory st))"
  by (simp add: handleSendCurrentFile_def Let_def split: option.splits)

lemma sendSelection_never_posts_to_panel:
  "panelPosts (trace (handleSendSelection env st)) = panelPosts (trace st)
   \<and> length (messageHistory (handleSendSelection env st)) = Suc (length (messageHistory st))"
  by (simp add: handleSendSelection_def Let_def split: option.splits)

lemma previewApply_never_posts_to_panel:
  "panelPosts (trace (showPreviewAndApply env st Apply p c)) = panelPosts (trace st)
   \<and> length (messageHistory (showPreviewAndApply env st Apply p c)) = Suc (length (messageHistory st))"
  using quiet_handleEditFile [of st env p c] panelPosts_handleEditFile [of env st p c]
  by (simp add: showPreviewAndApply_def split_beta quiet_def)

text \<open>The user turn posts the final snapshot to the detachable panel whenever it is live.\<close>

lemma userTurn_posts_to_panel:
  "panel st \<Longrightarrow>
     \<exists>evs. trace (handleUserMessage v env st m) =
             evs @ [PostPanel (messageHistory (handleUserMessage v env st m))]"
  by (simp add: handleUserMessage_trace handleUserMessage_history)

section \<open>Context augmentation\<close>

text \<open>
  C6, as amended. For a provider call that the caller did not suppress, with the provider
  \<open>gpt\<close>, \<open>claude\<close> or \<open>grok\<close> and its credential set, one transport request is made, and
  the text it sends is: when an editor is active, the \<open>Current Context\<close> block (workspace
  name, active file name and path, language id, and the selection's line range if any)
  followed by a blank line, the line \<open>**User Question:**\<close> and the user's text; when no
  editor is active, the user's text alone.
\<close>

theorem context_augmentation:
  assumes "\<not> startsWith userText (S ''/read '')" and "\<not> startsWith userText (S ''/edit '')"
    and "configGet (activeProvider env) (S ''gpt'') = p"
    and "p \<in> {S ''gpt'', S ''claude'', S ''grok''}"
    and "apiKeyOf env p \<noteq> []"
  shows "\<exists>req. trace (snd (callAI env st userText True)) = trace st @ [Fetch req]
           \<and> sentText req =
               (case activeTextEditor env of
                  None \<Rightarrow> userText
                | Some e \<Rightarrow>
                    currentContextBlock env e @ S ''\<newline>\<newline>**User Question:**\<newline>'' @ userText)"
proof -
  let ?enhanced = "case activeTextEditor env of
                  None \<Rightarrow> userText
                | Some e \<Rightarrow>
                    currentContextBlock env e @ S ''\<newline>\<newline>**User Question:**\<newline>'' @ userText"
  have enh: "(case getWorkspaceContext env of
                Some contextInfo \<Rightarrow> contextInfo @ S ''\<newline>\<newline>**User Question:**\<newline>'' @ userText
              | None \<Rightarrow> userText) = ?enhanced"
    by (simp add: getWorkspaceContext_block split: option.splits)
  consider "p = S ''gpt''" | "p = S ''claude''" | "p = S ''grok''"
    using assms(4) by auto
  then show ?thesis
  proof cases
    case 1
    with assms(3,5) have k: "configGet (gptApiKey env) [] \<noteq> []" and pr: "configGet (activeProvider env) (S ''gpt'') = S ''gpt''"
      by (simp_all add: apiKeyOf_def)
    have "callAI env st userText True = callOpenAIGPT env st ?enhanced"
      unfolding callAI_provider [OF assms(1,2)] enh by (simp add: pr)
    with callOpenAIGPT_sends [OF k, of st ?enhanced] show ?thesis by simp
  next
    case 2
    with assms(3,5) have k: "configGet (claudeApiKey env) [] \<noteq> []" and pr: "configGet (activeProvider env) (S ''gpt'') = S ''claude''"
      by (simp_all add: apiKeyOf_def provider_names_distinct)
    have "callAI env st userText True = callClaudeStub env st ?enhanced"
      unfolding callAI_provider [OF assms(1,2)] enh by (simp add: pr provider_names_distinct)
    with callClaudeStub_sends [OF k, of st ?enhanced] show ?thesis by simp
  next
    case 3
    with assms(3,5) have k: "configGet (grokApiKey env) [] \<noteq> []" and pr: "configGet (activeProvider env) (S ''gpt'') = S ''grok''"
      by (simp_all add: apiKeyOf_def provider_names_distinct)
    have "callAI env st userText True = callGrokStub env st ?enhanced"
      unfolding callAI_provider [OF assms(1,2)] enh by (simp add: pr provider_names_distinct)
    with callGrokStub_sends [OF k, of st ?enhanced] show ?thesis by simp
  qed
qed


theorem context_augmentation_witness:
  "\<not> startsWith (S ''hi'') (S ''/read '') \<and> \<not> startsWith (S ''hi'') (S ''/edit '')
   \<and> configGet (activeProvider editorKeyEnv) (S ''gpt'') = S ''gpt''
   \<and> S ''gpt'' \<in> {S ''gpt'', S ''claude'', S ''grok''}
   \<and> apiKeyOf editorKeyEnv (S ''gpt'') \<noteq> []
   \<and> activeTextEditor editorKeyEnv = Some demoEditor
   \<and> map sentText (fetches (trace (snd (callAI editorKeyEnv (stateWith Map.empty) (S ''hi'') True)))) =
       [S ''**Current Context:**\<newline>- Workspace: ws\<newline>- Current file: `demo.ts`\<newline>- File path: `/ws/demo.ts`\<newline>- Language: typescript\<newline>- Selected lines: 3-3\<newline>\<newline>\<newline>**User Question:**\<newline>hi'']"
proof -
  let ?st = "stateWith Map.empty"
  have 3: "configGet (activeProvider editorKeyEnv) (S ''gpt'') = S ''gpt''"
    by (simp add: editorKeyEnv_def editorEnv_def wsEnv_def emptyEnv_def configGet_def)
  have 4: "S ''gpt'' \<in> {S ''gpt'', S ''claude'', S ''grok''}" by simp
  have 5: "apiKeyOf editorKeyEnv (S ''gpt'') \<noteq> []"
    by (simp add: apiKeyOf_def editorKeyEnv_def configGet_def S_def)
  have ed: "activeTextEditor editorKeyEnv = Some demoEditor"
    by (simp add: editorKeyEnv_def editorEnv_def wsEnv_def emptyEnv_def)
  have rel: "asRelativePath editorKeyEnv = (\<lambda>p. p)"
    by (simp add: editorKeyEnv_def editorEnv_def wsEnv_def emptyEnv_def)
  have blk: "currentContextBlock editorKeyEnv demoEditor @ S ''\<newline>\<newline>**User Question:**\<newline>'' @ S ''hi'' =
      S ''**Current Context:**\<newline>- Workspace: ws\<newline>- Current file: `demo.ts`\<newline>- File path: `/ws/demo.ts`\<newline>- Language: typescript\<newline>- Selected lines: 3-3\<newline>\<newline>\<newline>**User Question:**\<newline>hi''"
    by (simp add: currentContextBlock_def rel demoEditor_def selectionIsEmpty_def lastSegment_def
          isPathSep_def S_def)
  have t: "trace ?st = []" by (simp add: stateWith_def)
  from context_augmentation [OF hi_plain(1) hi_plain(2) 3 4 5, of ?st]
  obtain req where r: "trace (snd (callAI editorKeyEnv ?st (S ''hi'') True)) = [Fetch req]"
    and s: "sentText req =
      currentContextBlock editorKeyEnv demoEditor @ S ''\<newline>\<newline>**User Question:**\<newline>'' @ S ''hi''"
    unfolding ed t by auto
  have m: "map sentText (fetches (trace (snd (callAI editorKeyEnv ?st (S ''hi'') True)))) =
       [S ''**Current Context:**\<newline>- Workspace: ws\<newline>- Current file: `demo.ts`\<newline>- File path: `/ws/demo.ts`\<newline>- Language: typescript\<newline>- Selected lines: 3-3\<newline>\<newline>\<newline>**User Question:**\<newline>hi'']"
    unfolding r fetches_single using s blk by simp
  from hi_plain(1) hi_plain(2) 3 4 5 ed m show ?thesis by (intro conjI)
qed

text \<open>
  Without an active editor there is no block to prepend: the text sent is the user's
  text.
\<close>

theorem context_augmentation_counterexample:
  "activeTextEditor keyEnv = None
   \<and> configGet (activeProvider keyEnv) (S ''gpt'') = S ''gpt''
   \<and> map sentText (fetches (trace (snd (callAI keyEnv (stateWith Map.empty) (S ''hi'') True)))) =
       [S ''hi'']
   \<and> \<not> includes_str (S ''hi'') (S ''Current Context'')"
proof -
  let ?st = "stateWith Map.empty"
  have ed: "activeTextEditor keyEnv = None"
    by (simp add: keyEnv_def emptyEnv_def)
  have pr: "configGet (activeProvider keyEnv) (S ''gpt'') = S ''gpt''"
    by (simp add: keyEnv_def emptyEnv_def configGet_def)
  have k: "configGet (gptApiKey keyEnv) [] \<noteq> []"
    by (simp add: keyEnv_def configGet_def S_def)
  have ctx: "getWorkspaceContext keyEnv = None"
    by (simp add: getWorkspaceContext_block ed)
  have c: "callAI keyEnv ?st (S ''hi'') True = callOpenAIGPT keyEnv ?st (S ''hi'')"
    unfolding callAI_provider [OF hi_plain(1) hi_plain(2)]
    by (simp add: ctx pr Let_def)
  have t: "trace ?st = []" by (simp add: stateWith_def)
  from callOpenAIGPT_sends [OF k, of ?st "S ''hi''"]
  obtain req where r: "trace (snd (callOpenAIGPT keyEnv ?st (S ''hi''))) = [Fetch req]"
    and s: "sentText req = S ''hi''"
    unfolding t by auto
  have m: "map sentText (fetches (trace (snd (callAI keyEnv ?st (S ''hi'') True)))) = [S ''hi'']"
    unfolding c r fetches_single using s by simp
  have n: "\<not> includes_str (S ''hi'') (S ''Current Context'')"
    by (simp add: includes_str_def startsWith_def S_def)
  from ed pr m n show ?thesis by (intro conjI)
qed


text \<open>
  The Gemini strategy is handed the text as received, whether or not the caller asked
  for the context and whether or not an editor is open.
\<close>

lemma gemini_gets_bare_text:
  assumes "\<not> startsWith userText (S ''/read '')" and "\<not> startsWith userText (S ''/edit '')"
    and "configGet (activeProvider env) (S ''gpt'') = S ''gemini''"
    and "configGet (geminiApiKey env) [] \<noteq> []"
  shows "\<exists>req. trace (snd (callAI env st userText includeContext)) = trace st @ [Fetch req]
           \<and> sentText req = userText"
proof -
  have "callAI env st userText includeContext = callGeminiStub env st userText"
    unfolding callAI_provider [OF assms(1,2)]
    by (simp add: assms(3) provider_names_distinct Let_def)
  with callGeminiStub_sends [OF assms(4), of st userText] show ?thesis by simp
qed

text \<open>The only caller in the repository suppresses the block: the user turn passes \<open>false\<close>.\<close>

lemma suppressed_sends_bare_text:
  assumes "\<not> startsWith userText (S ''/read '')" and "\<not> startsWith userText (S ''/edit '')"
    and "configGet (activeProvider env) (S ''gpt'') = S ''gpt''"
    and "configGet (gptApiKey env) [] \<noteq> []"
  shows "\<exists>req. trace (snd (callAI env st userText False)) = trace st @ [Fetch req]
           \<and> sentText req = userText"
proof -
  have "callAI env st userText False = callOpenAIGPT env st userText"
    unfolding callAI_provider [OF assms(1,2)]
    by (simp add: assms(3) Let_def)
  with callOpenAIGPT_sends [OF assms(4), of st userText] show ?thesis by simp
qed

section \<open>The \<open>/read\<close> command\<close>

text \<open>
  C7, as amended. For a \<open>/read <path>\<close> command whose resolved path passes the
  controller's check against the first workspace root and is readable, the result is the
  file content wrapped in a triple-backtick fenced block when the content is at most 4000
  characters, and the notice \<open>File is too large to display in chat (showing first 4000
  chars):\<close> followed by a newline and the first 4000 characters, with no fence, when it is
  longer. The command reads that one file and makes no transport request: it never
  reaches a provider.
\<close>

theorem read_command_result:
  assumes "startsWith userText (S ''/read '')"
    and "workspaceFolders env = wsf # rest"
    and "absPath = pathResolve (cwd env) [fsPath wsf, trim (replace userText (S ''/read '') [])]"
    and "startsWith absPath (fsPath wsf)"
    and "files st absPath = Some fileContent"
  shows "fst (callAI env st userText includeContext) =
           Inr (if length fileContent \<le> 4000 then fenced fileContent
                else S ''File is too large to display in chat (showing first 4000 chars):''
                       @ S ''\<newline>'' @ take 4000 fileContent)
     \<and> trace (snd (callAI env st userText includeContext)) = trace st @ [FsRead absPath]
     \<and> fetches (trace (snd (callAI env st userText includeContext))) = fetches (trace st)"
  unfolding callAI_read [OF assms(1)] handleReadFile_readable [OF assms(2-5)]
  by (simp add: fenced_def S_def)

theorem read_command_result_witness:
  "startsWith (S ''/read notes.md'') (S ''/read '')
   \<and> workspaceFolders wsEnv = [\<lparr>folderName = S ''ws'', fsPath = S ''/ws''\<rparr>]
   \<and> S ''/ws/notes.md'' = pathResolve (cwd wsEnv) [S ''/ws'', trim (replace (S ''/read notes.md'') (S ''/read '') [])]
   \<and> startsWith (S ''/ws/notes.md'') (S ''/ws'')
   \<and> files (stateWith [S ''/ws/notes.md'' \<mapsto> S ''hello'']) (S ''/ws/notes.md'') = Some (S ''hello'')
   \<and> fst (callAI wsEnv (stateWith [S ''/ws/notes.md'' \<mapsto> S ''hello'']) (S ''/read notes.md'') False)
        = Inr (S ''```\<newline>hello\<newline>```'')
   \<and> trace (snd (callAI wsEnv (stateWith [S ''/ws/notes.md'' \<mapsto> S ''hello'']) (S ''/read notes.md'') False))
        = [FsRead (S ''/ws/notes.md'')]"
proof -
  let ?st = "stateWith [S ''/ws/notes.md'' \<mapsto> S ''hello'']"
  have 2: "workspaceFolders wsEnv = \<lparr>folderName = S ''ws'', fsPath = S ''/ws''\<rparr> # []"
    by (rule wsEnv_sel)
  have 3: "S ''/ws/notes.md'' = pathResolve (cwd wsEnv)
      [fsPath \<lparr>folderName = S ''ws'', fsPath = S ''/ws''\<rparr>, trim (replace (S ''/read notes.md'') (S ''/read '') [])]"
    by (simp add: read_notes_cmd wsEnv_sel resolve_notes)
  have 4: "startsWith (S ''/ws/notes.md'') (fsPath \<lparr>folderName = S ''ws'', fsPath = S ''/ws''\<rparr>)"
    by (simp add: startsWith_def S_def)
  have 5: "files ?st (S ''/ws/notes.md'') = Some (S ''hello'')"
    by (simp add: stateWith_def)
  have l: "length (S ''hello'') \<le> 4000" by (simp add: S_def)
  have f: "fenced (S ''hello'') = S ''```\<newline>hello\<newline>```''" by (simp add: fenced_def S_def)
  have t: "trace ?st = []" by (simp add: stateWith_def)
  from read_command_result [OF read_notes_cmd(1) 2 3 4 5, of False]
  have a: "fst (callAI wsEnv ?st (S ''/read notes.md'') False) = Inr (S ''```\<newline>hello\<newline>```'')"
    and b: "trace (snd (callAI wsEnv ?st (S ''/read notes.md'') False)) = [FsRead (S ''/ws/notes.md'')]"
    unfolding t by (simp_all add: l f)
  from read_notes_cmd(1) 2 3 4 5 a b show ?thesis by simp
qed

text \<open>
  Above 4000 characters the notice and the first 4000 characters are returned as they
  are, with no fence around them.
\<close>

theorem read_truncation_counterexample:
  "length (replicate 4001 (0x61 :: 16 word)) > 4000
   \<and> files (stateWith [S ''/ws/big.txt'' \<mapsto> replicate 4001 0x61]) (S ''/ws/big.txt'')
        = Some (replicate 4001 0x61)
   \<and> fst (callAI wsEnv (stateWith [S ''/ws/big.txt'' \<mapsto> replicate 4001 0x61]) (S ''/read big.txt'') False)
        = Inr (S ''File is too large to display in chat (showing first 4000 chars):\<newline>''
                 @ replicate 4000 0x61)
   \<and> \<not> startsWith
          (S ''File is too large to display in chat (showing first 4000 chars):\<newline>''
             @ replicate 4000 0x61)
          (S ''```'')"
proof -
  let ?st = "stateWith [S ''/ws/big.txt'' \<mapsto> replicate 4001 0x61]"
  have 2: "workspaceFolders wsEnv = \<lparr>folderName = S ''ws'', fsPath = S ''/ws''\<rparr> # []"
    by (rule wsEnv_sel)
  have 3: "S ''/ws/big.txt'' = pathResolve (cwd wsEnv) [fsPath \<lparr>folderName = S ''ws'', fsPath = S ''/ws''\<rparr>, S ''big.txt'']"
    by (simp add: wsEnv_sel resolve_big)
  have 4: "startsWith (S ''/ws/big.txt'') (fsPath \<lparr>folderName = S ''ws'', fsPath = S ''/ws''\<rparr>)"
    by (simp add: startsWith_def S_def)
  have 5: "files ?st (S ''/ws/big.txt'') = Some (replicate 4001 0x61)"
    by (simp add: stateWith_def)
  have a: "fst (callAI wsEnv ?st (S ''/read big.txt'') False)
        = Inr (S ''File is too large to display in chat (showing first 4000 chars):\<newline>''
                 @ replicate 4000 0x61)"
    unfolding callAI_read [OF read_big_cmd(1)] read_big_cmd(2)
      handleReadFile_readable [OF 2 3 4 5]
    by simp
  have n: "\<not> startsWith
          (S ''File is too large to display in chat (showing first 4000 chars):\<newline>''
             @ replicate 4000 0x61)
          (S ''```'')"
    by (simp add: startsWith_def S_def)
  from 5 a n show ?thesis by simp
qed

section \<open>Missing credentials\<close>

text \<open>
  C8: for each of the four provider strategies, a dispatch with an empty or absent API
  credential returns the error \<open>No <provider> API key set. Please add it in the extension
  settings.\<close>, which names the provider, and leaves the state as it was, so that no
  transport request is made; the turn then ends with the \<open>error\<close> entry
  \<open>Error: No <provider> API key set. ...\<close> after the \<open>user\<close> entry, having made no
  transport request. The dispatch is one that reaches a provider: the text does not start
  with the \<open>/read\<close> or \<open>/edit\<close> prefix.
\<close>

theorem missing_credential_fails_fast:
  assumes "configGet (activeProvider env) (S ''gpt'') = p"
    and "p \<in> {S ''gpt'', S ''claude'', S ''grok'', S ''gemini''}"
    and "apiKeyOf env p = []"
  shows "(\<forall>u st' b. \<not> startsWith u (S ''/read '') \<and> \<not> startsWith u (S ''/edit '') \<longrightarrow>
            callAI env st' u b =
              (Inl (JsError (S ''Error'')
                      (S ''No '' @ providerLabel p
                         @ S '' API key set. Please add it in the extension settings.'')), st'))
     \<and> (\<not> startsWith (content (userEntry v env st m)) (S ''/read '')
          \<and> \<not> startsWith (content (userEntry v env st m)) (S ''/edit '') \<longrightarrow>
            messageHistory (handleUserMessage v env st m) =
              filter (\<lambda>x. role x \<noteq> Loading) (messageHistory st)
                @ [userEntry v env st m,
                   \<lparr>role = Err,
                    content =
                      S ''Error: No '' @ providerLabel p
                        @ S '' API key set. Please add it in the extension settings.''\<rparr>]
            \<and> fetches (trace (handleUserMessage v env st m)) = fetches (trace st))"
proof (intro conjI allI impI)
  fix u st' b
  assume "\<not> startsWith u (S ''/read '') \<and> \<not> startsWith u (S ''/edit '')"
  then show "callAI env st' u b =
      (Inl (JsError (S ''Error'')
              (S ''No '' @ providerLabel p
                 @ S '' API key set. Please add it in the extension settings.'')), st')"
    using callAI_missing_key [OF _ _ assms, of u st' b] by (simp add: missingKeyMessage_def)
next
  assume c: "\<not> startsWith (content (userEntry v env st m)) (S ''/read '')
          \<and> \<not> startsWith (content (userEntry v env st m)) (S ''/edit '')"
  have call: "callAI env (awaiting v env st m) (content (userEntry v env st m)) False =
      (Inl (JsError (S ''Error'') (missingKeyMessage p)), awaiting v env st m)"
    using c callAI_missing_key [OF _ _ assms] by simp
  then have oc: "outcome v env st m = Inl (JsError (S ''Error'') (missingKeyMessage p))"
    by (simp add: outcome_def)
  show "messageHistory (handleUserMessage v env st m) =
      filter (\<lambda>x. role x \<noteq> Loading) (messageHistory st)
        @ [userEntry v env st m,
           \<lparr>role = Err,
            content =
              S ''Error: No '' @ providerLabel p
                @ S '' API key set. Please add it in the extension settings.''\<rparr>]"
    unfolding handleUserMessage_history oc
    by (simp add: terminalEntry_def missingKeyMessage_def S_def)
  show "fetches (trace (handleUserMessage v env st m)) = fetches (trace st)"
    unfolding handleUserMessage_trace call
    by (simp add: fetches_awaiting)
qed


theorem missing_credential_fails_fast_witness:
  "configGet (activeProvider emptyEnv) (S ''gpt'') = S ''gpt''
   \<and> S ''gpt'' \<in> {S ''gpt'', S ''claude'', S ''grok'', S ''gemini''}
   \<and> apiKeyOf emptyEnv (S ''gpt'') = []
   \<and> \<not> startsWith (S ''hi'') (S ''/read '') \<and> \<not> startsWith (S ''hi'') (S ''/edit '')
   \<and> callAI emptyEnv (stateWith Map.empty) (S ''hi'') True =
        (Inl (JsError (S ''Error'')
                (S ''No OpenAI API key set. Please add it in the extension settings.'')),
         stateWith Map.empty)
   \<and> messageHistory (handleUserMessage Part000 emptyEnv (stateWith Map.empty) (plainMessage (S ''hi''))) =
        [\<lparr>role = User, content = S ''hi''\<rparr>,
         \<lparr>role = Err,
          content = S ''Error: No OpenAI API key set. Please add it in the extension settings.''\<rparr>]
   \<and> fetches (trace (handleUserMessage Part000 emptyEnv (stateWith Map.empty) (plainMessage (S ''hi'')))) = []"
proof -
  let ?st = "stateWith Map.empty"
  let ?m = "plainMessage (S ''hi'')"
  have 1: "configGet (activeProvider emptyEnv) (S ''gpt'') = S ''gpt''"
    by (simp add: emptyEnv_def configGet_def)
  have 2: "S ''gpt'' \<in> {S ''gpt'', S ''claude'', S ''grok'', S ''gemini''}" by simp
  have 3: "apiKeyOf emptyEnv (S ''gpt'') = []"
    by (simp add: apiKeyOf_def emptyEnv_def configGet_def)
  have ue: "userEntry Part000 emptyEnv ?st ?m = \<lparr>role = User, content = S ''hi''\<rparr>"
    by (rule userEntry_plain) (rule hi_plain)+
  have lab: "S ''No '' @ providerLabel (S ''gpt'') @ S '' API key set. Please add it in the extension settings.''
      = S ''No OpenAI API key set. Please add it in the extension settings.''"
    "S ''Error: No '' @ providerLabel (S ''gpt'') @ S '' API key set. Please add it in the extension settings.''
      = S ''Error: No OpenAI API key set. Please add it in the extension settings.''"
    by (simp_all add: providerLabel_def S_append)
  note inst = missing_credential_fails_fast [OF 1 2 3, of Part000 ?st ?m, unfolded ue lab]
  from inst have a: "callAI emptyEnv ?st (S ''hi'') True =
        (Inl (JsError (S ''Error'')
                (S ''No OpenAI API key set. Please add it in the extension settings.'')), ?st)"
    using hi_plain(1,2) by blast
  from inst have b: "messageHistory (handleUserMessage Part000 emptyEnv ?st ?m) =
        filter (\<lambda>x. role x \<noteq> Loading) (messageHistory ?st)
          @ [\<lparr>role = User, content = S ''hi''\<rparr>,
             \<lparr>role = Err,
              content = S ''Error: No OpenAI API key set. Please add it in the extension settings.''\<rparr>]"
    and c: "fetches (trace (handleUserMessage Part000 emptyEnv ?st ?m)) = fetches (trace ?st)"
    using hi_plain(1,2) by simp_all
  have st: "messageHistory ?st = []" "trace ?st = []" by (simp_all add: stateWith_def)
  from b c have b': "messageHistory (handleUserMessage Part000 emptyEnv ?st ?m) =
          [\<lparr>role = User, content = S ''hi''\<rparr>,
             \<lparr>role = Err,
              content = S ''Error: No OpenAI API key set. Please add it in the extension settings.''\<rparr>]"
    and c': "fetches (trace (handleUserMessage Part000 emptyEnv ?st ?m)) = []"
    unfolding st by simp_all
  from 1 2 3 hi_plain(1,2) a b' c' show ?thesis by (intro conjI)
qed

section \<open>The \<open>[No response]\<close> fallback\<close>

text \<open>
  C9: a successful transport result whose parsed envelope lacks the expected text field
  is to yield \<open>[No response]\<close>, never \<open>undefined\<close> and never an exception. Every strategy
  reads the first property of the envelope without a guard (\<open>data.choices\<close>,
  \<open>data.content\<close>, \<open>data.candidates\<close>) and guards only the later steps with \<open>?.\<close>. The
  theorem evaluates the envelope \<open>null\<close>: each of the three parsers throws a TypeError,
  the dispatcher returns that error, and the turn ends with an \<open>error\<close> entry.
\<close>

theorem null_envelope_throws:
  "chatText JNull =
     Inl (JsError (S ''TypeError'')
            (S ''Cannot read properties of null (reading '' @ [0x27] @ S ''choices'' @ [0x27] @ S '')''))
   \<and> claudeText JNull =
     Inl (JsError (S ''TypeError'')
            (S ''Cannot read properties of null (reading '' @ [0x27] @ S ''content'' @ [0x27] @ S '')''))
   \<and> geminiText JNull =
     Inl (JsError (S ''TypeError'')
            (S ''Cannot read properties of null (reading '' @ [0x27] @ S ''candidates'' @ [0x27] @ S '')''))
   \<and> fst (callAI nullEnvelopeEnv (stateWith Map.empty) (S ''hi'') False) =
     Inl (JsError (S ''TypeError'')
            (S ''Cannot read properties of null (reading '' @ [0x27] @ S ''choices'' @ [0x27] @ S '')''))
   \<and> messageHistory (handleUserMessage Part000 nullEnvelopeEnv (stateWith Map.empty) (plainMessage (S ''hi''))) =
       [\<lparr>role = User, content = S ''hi''\<rparr>,
        \<lparr>role = Err,
         content = S ''Error: Cannot read properties of null (reading '' @ [0x27] @ S ''choices''
                     @ [0x27] @ S '')''\<rparr>]"
proof -
  have t: "chatText JNull =
     Inl (JsError (S ''TypeError'')
            (S ''Cannot read properties of null (reading '' @ [0x27] @ S ''choices'' @ [0x27] @ S '')''))"
    "claudeText JNull =
     Inl (JsError (S ''TypeError'')
            (S ''Cannot read properties of null (reading '' @ [0x27] @ S ''content'' @ [0x27] @ S '')''))"
    "geminiText JNull =
     Inl (JsError (S ''TypeError'')
            (S ''Cannot read properties of null (reading '' @ [0x27] @ S ''candidates'' @ [0x27] @ S '')''))"
    by (simp_all add: chatText_def claudeText_def geminiText_def dot_def)
  have env: "configGet (activeProvider nullEnvelopeEnv) (S ''gpt'') = S ''gpt''"
    "configGet (gptApiKey nullEnvelopeEnv) [] = S ''k''"
    "fetch nullEnvelopeEnv = (\<lambda>r. Inr \<lparr>ok = True, bodyText = S ''null'', bodyJson = Inr JNull\<rparr>)"
    by (simp_all add: nullEnvelopeEnv_def emptyEnv_def configGet_def)
  have k: "S ''k'' \<noteq> []" by (simp add: S_def)
  have call: "fst (callAI nullEnvelopeEnv st (S ''hi'') False) = chatText JNull" for st
    by (simp add: callAI_provider hi_plain Let_def env callOpenAIGPT_def k send_def settle_def)
  have ue: "userEntry Part000 nullEnvelopeEnv (stateWith Map.empty) (plainMessage (S ''hi'')) =
      \<lparr>role = User, content = S ''hi''\<rparr>"
    by (rule userEntry_plain) (rule hi_plain)+
  have oc: "outcome Part000 nullEnvelopeEnv (stateWith Map.empty) (plainMessage (S ''hi'')) = chatText JNull"
    unfolding outcome_def ue by (simp add: call)
  have h: "messageHistory (handleUserMessage Part000 nullEnvelopeEnv (stateWith Map.empty) (plainMessage (S ''hi''))) =
       [\<lparr>role = User, content = S ''hi''\<rparr>,
        \<lparr>role = Err,
         content = S ''Error: Cannot read properties of null (reading '' @ [0x27] @ S ''choices''
                     @ [0x27] @ S '')''\<rparr>]"
    unfolding handleUserMessage_history ue oc t
    by (simp add: terminalEntry_def stateWith_def S_def)
  from t call [of "stateWith Map.empty"] h show ?thesis by simp
qed


text \<open>
  Where the fallback does hold: the envelope is not \<open>null\<close>, and the guarded chain ends
  in \<open>undefined\<close>, in \<open>null\<close> or in a string that is empty after trimming.
\<close>

lemma blank_fallback:
  "blank x \<Longrightarrow> (case optTrim x of Inl e \<Rightarrow> Inl e | Inr v \<Rightarrow> Inr (orNoResponse v)) = Inr (S ''[No response]'')"
  by (auto simp: blank_def optTrim_def orNoResponse_def orElse_def split: jsval.splits json.splits)

lemma dot_not_null: "d \<noteq> JNull \<Longrightarrow> dot d k = Inr (getProp d k)"
  by (cases d) (simp_all add: dot_def)

lemma chatText_no_response:
  assumes "d \<noteq> JNull"
    and "blank (optDot (optDot (optIndex0 (getProp d (S ''choices''))) (S ''message'')) (S ''content''))"
  shows "chatText d = Inr (S ''[No response]'')"
  using blank_fallback [OF assms(2)] by (simp add: chatText_def dot_not_null [OF assms(1)])

lemma claudeText_no_response:
  assumes "d \<noteq> JNull"
    and "blank (optDot (optIndex0 (getProp d (S ''content''))) (S ''text''))"
  shows "claudeText d = Inr (S ''[No response]'')"
  using blank_fallback [OF assms(2)] by (simp add: claudeText_def dot_not_null [OF assms(1)])

lemma geminiText_no_response:
  assumes "d \<noteq> JNull"
    and "blank (optDot (optIndex0 (optDot (optDot (optIndex0 (getProp d (S ''candidates''))) (S ''content'')) (S ''parts''))) (S ''text''))"
  shows "geminiText d = Inr (S ''[No response]'')"
  using blank_fallback [OF assms(2)] by (simp add: geminiText_def dot_not_null [OF assms(1)])

lemma empty_object_no_response:
  "chatText (JObj []) = Inr (S ''[No response]'')"
  "claudeText (JObj []) = Inr (S ''[No response]'')"
  "geminiText (JObj []) = Inr (S ''[No response]'')"
  by (simp_all add: chatText_def claudeText_def geminiText_def dot_def lookupProp_def optIndex0_def
        optDot_def optTrim_def orNoResponse_def)

section \<open>Files attached as context\<close>

text \<open>
  C10: for a file attached as context, the resolved item's content is the first 2000
  code units of the file followed by a newline and \<open>... (truncated)\<close> when the file is
  longer than 2000, and the whole file otherwise; when the read fails the resolver
  returns nothing, and the loop over the context bubbles goes on to the next bubble with
  the resolved items unchanged.
\<close>

theorem handleAddFileToContext_content:
  "(\<forall>c. files st p = Some c \<and> length c > 2000 \<longrightarrow>
        map_option ci_content (fst (handleAddFileToContext env st p))
          = Some (take 2000 c @ S ''\<newline>'' @ S ''... (truncated)''))
   \<and> (\<forall>c. files st p = Some c \<and> length c \<le> 2000 \<longrightarrow>
        map_option ci_content (fst (handleAddFileToContext env st p)) = Some c)
   \<and> (files st p = None \<longrightarrow> fst (handleAddFileToContext env st p) = None)
   \<and> (files st p = None \<and> b_type b = S ''file'' \<and> b_path b = Some p \<and> p \<noteq> [] \<longrightarrow>
        resolveBubbles env (b # bs) (refs, st) = resolveBubbles env bs (refs, snd (readFile st p)))"
  by (auto simp: handleAddFileToContext_def readFile_def S_def orDefault_def orElse_def)

theorem handleAddFileToContext_content_witness:
  "files (stateWith [S ''/ws/big.txt'' \<mapsto> replicate 2001 0x61]) (S ''/ws/big.txt'') = Some (replicate 2001 0x61)
   \<and> length (replicate 2001 (0x61 :: 16 word)) > 2000
   \<and> map_option ci_content
         (fst (handleAddFileToContext emptyEnv (stateWith [S ''/ws/big.txt'' \<mapsto> replicate 2001 0x61]) (S ''/ws/big.txt'')))
       = Some (replicate 2000 0x61 @ S ''\<newline>... (truncated)'')
   \<and> files (stateWith [S ''/ws/a.txt'' \<mapsto> S ''x=1'']) (S ''/ws/a.txt'') = Some (S ''x=1'')
   \<and> map_option ci_content
         (fst (handleAddFileToContext emptyEnv (stateWith [S ''/ws/a.txt'' \<mapsto> S ''x=1'']) (S ''/ws/a.txt'')))
       = Some (S ''x=1'')
   \<and> files (stateWith Map.empty) (S ''/ws/gone.txt'') = None
   \<and> fst (handleAddFileToContext emptyEnv (stateWith Map.empty) (S ''/ws/gone.txt'')) = None
   \<and> fst (resolveBubbles emptyEnv
         [\<lparr>b_type = S ''file'', b_path = Some (S ''/ws/gone.txt''), b_icon = None, b_name = S ''gone.txt'', b_content = []\<rparr>]
         ([], stateWith Map.empty)) = []"
proof -
  let ?big = "stateWith [S ''/ws/big.txt'' \<mapsto> replicate 2001 0x61]"
  let ?small = "stateWith [S ''/ws/a.txt'' \<mapsto> S ''x=1'']"
  let ?none = "stateWith Map.empty"
  let ?b = "\<lparr>b_type = S ''file'', b_path = Some (S ''/ws/gone.txt''), b_icon = None, b_name = S ''gone.txt'', b_content = []\<rparr>"
  have 1: "files ?big (S ''/ws/big.txt'') = Some (replicate 2001 0x61)"
    by (simp add: stateWith_def)
  have 2: "files ?small (S ''/ws/a.txt'') = Some (S ''x=1'')"
    by (simp add: stateWith_def)
  have 3: "files ?none (S ''/ws/gone.txt'') = None"
    by (simp add: stateWith_def)
  have 4: "S ''/ws/gone.txt'' \<noteq> []" by (simp add: S_def)
  have 5: "length (S ''x=1'') \<le> 2000" by (simp add: S_def)
  from handleAddFileToContext_content [of ?big "S ''/ws/big.txt''" emptyEnv] 1
  have a: "map_option ci_content (fst (handleAddFileToContext emptyEnv ?big (S ''/ws/big.txt'')))
       = Some (replicate 2000 0x61 @ S ''\<newline>... (truncated)'')"
    by (simp add: S_def)
  from handleAddFileToContext_content [of ?small "S ''/ws/a.txt''" emptyEnv] 2 5
  have b: "map_option ci_content (fst (handleAddFileToContext emptyEnv ?small (S ''/ws/a.txt''))) = Some (S ''x=1'')"
    by blast
  from handleAddFileToContext_content [of ?none "S ''/ws/gone.txt''" emptyEnv ?b "[]" "[]"] 3 4
  have c: "fst (handleAddFileToContext emptyEnv ?none (S ''/ws/gone.txt'')) = None"
    and d: "resolveBubbles emptyEnv [?b] ([], ?none) = resolveBubbles emptyEnv [] ([], snd (readFile ?none (S ''/ws/gone.txt'')))"
    by simp_all
  from d have d': "fst (resolveBubbles emptyEnv [?b] ([], ?none)) = []" by simp
  from 1 2 3 a b c d' show ?thesis by simp
qed

end
